theory Spec2Isabelle
  imports Complex_Main
begin

section \<open>Common ground: Python values, errors and strings\<close>

text \<open>
  The two strategies of the repository are embedded here:
  \<^item> \<^verbatim>\<open>hummingbot/strategy/liquidity_mining/liquidity_mining.py\<close>
    (class \<^verbatim>\<open>LiquidityMiningStrategy\<close>), with the market-band feed of
    \<^verbatim>\<open>hummingbot/data_feed/miner_market/miner_market_band.py\<close>;
  \<^item> \<^verbatim>\<open>scripts/v2_funding_rate_arb.py\<close> (class \<^verbatim>\<open>FundingRateArbitrage\<close>).

  Conventions of the embedding.
  \<^item> A \<^verbatim>\<open>Decimal\<close> is a rational number (\<^typ>\<open>rat\<close>): sums, products and quotients
    are exact, the rounding of the decimal context to 28 significant digits is not part
    of the model. The special value \<^verbatim>\<open>Decimal("NaN")\<close> appears in the source only as
    the "no volatility" marker; a volatility is therefore a \<^typ>\<open>rat option\<close> and
    \<^term>\<open>None\<close> is NaN.
  \<^item> A \<^verbatim>\<open>float\<close> timestamp is a rational number as well.
  \<^item> Every exception the embedded code can raise is a value of \<open>py_error\<close>, and a
    function that can raise returns \<open>py_error + 'a\<close> with \<^term>\<open>Inl\<close> for the
    exception. Under the default decimal context a division by zero raises
    \<^verbatim>\<open>DivisionByZero\<close>, and \<^verbatim>\<open>0 / 0\<close> raises \<^verbatim>\<open>InvalidOperation\<close>.
  \<^item> A \<^verbatim>\<open>dict\<close> that is only read and written by key is a map; a \<^verbatim>\<open>dict\<close> that is
    iterated is an association list in insertion order, whose keys are distinct.
\<close>

datatype py_error =
  KeyError | ValueError | TypeError | IndexError | DivisionByZero | InvalidOperation

definition dec_div :: "rat \<Rightarrow> rat \<Rightarrow> py_error + rat" where
  \<comment> \<open>\<^verbatim>\<open>a / b\<close> on \<^verbatim>\<open>Decimal\<close> values\<close>
  "dec_div a b =
     (if b = 0 then (if a = 0 then Inl InvalidOperation else Inl DivisionByZero)
      else Inr (a / b))"

fun split_on :: "char \<Rightarrow> string \<Rightarrow> string list" where
  \<comment> \<open>\<^verbatim>\<open>s.split(c)\<close> for a one-character separator: one more part than separators\<close>
  "split_on c [] = [[]]"
| "split_on c (x # xs) =
     (if x = c then [] # split_on c xs
      else (case split_on c xs of p # ps \<Rightarrow> (x # p) # ps | [] \<Rightarrow> [[x]]))"

definition split_pair :: "string \<Rightarrow> py_error + (string \<times> string)" where
  \<comment> \<open>\<^verbatim>\<open>base, quote = market.split("-")\<close>: unpacking anything but two parts raises\<close>
  "split_pair market =
     (case split_on CHR ''-'' market of
        [b, q] \<Rightarrow> Inr (b, q)
      | _ \<Rightarrow> Inl ValueError)"

datatype TradeType = BUY | SELL | RANGE

fun for_each :: "('a \<Rightarrow> 's \<Rightarrow> py_error + 's) \<Rightarrow> 'a list \<Rightarrow> 's \<Rightarrow> py_error + 's" where
  \<comment> \<open>a \<^verbatim>\<open>for\<close> loop over a list, threading the loop's variables; an exception in the
      body leaves the loop\<close>
  "for_each body [] s = Inr s"
| "for_each body (x # xs) s =
     (case body x s of Inl e \<Rightarrow> Inl e | Inr s' \<Rightarrow> for_each body xs s')"

fun dict_set :: "('k \<times> 'v) list \<Rightarrow> 'k \<Rightarrow> 'v \<Rightarrow> ('k \<times> 'v) list" where
  \<comment> \<open>\<^verbatim>\<open>d[k] = v\<close> on a dict kept in insertion order: a present key keeps its place,
      a new key goes last\<close>
  "dict_set [] k v = [(k, v)]"
| "dict_set ((k', v') # d) k v = (if k' = k then (k, v) # d else (k', v') # dict_set d k v)"

section \<open>Funding-rate arbitrage: the model\<close>

text \<open>
  What \<^verbatim>\<open>FundingRateArbitrage\<close> reads of a connector's \<^verbatim>\<open>FundingInfo\<close>.
\<close>

record funding_info =
  rate :: rat
  next_funding_utc_timestamp :: rat

text \<open>
  \<^verbatim>\<open>funding_info_report\<close>: a dict from connector name to \<^verbatim>\<open>FundingInfo\<close>, in the
  order of \<^verbatim>\<open>self.connectors\<close>.
\<close>

type_synonym funding_report = "(string \<times> funding_info) list"

definition quote_markets_map :: "string \<rightharpoonup> string" where
  "quote_markets_map = [''hyperliquid_perpetual'' \<mapsto> ''USD'', ''binance_perpetual'' \<mapsto> ''USDT'']"

definition funding_payment_interval_map :: "string \<rightharpoonup> rat" where
  "funding_payment_interval_map =
     [''binance_perpetual'' \<mapsto> 60 * 60 * 8, ''hyperliquid_perpetual'' \<mapsto> 60 * 60 * 1]"

definition funding_profitability_interval :: rat where
  "funding_profitability_interval = 60 * 60 * 24"

definition get_trading_pair_for_connector :: "string \<Rightarrow> string \<Rightarrow> string" where
  "get_trading_pair_for_connector token connector =
     token @ ''-'' @ (case quote_markets_map connector of Some q \<Rightarrow> q | None \<Rightarrow> ''USDT'')"

definition get_normalized_funding_rate_in_seconds :: "funding_report \<Rightarrow> string \<Rightarrow> py_error + rat" where
  \<comment> \<open>\<^verbatim>\<open>funding_info_report[connector_name]\<close> raises on a missing key; the interval is
      never zero\<close>
  "get_normalized_funding_rate_in_seconds funding_info_report connector_name =
     (case map_of funding_info_report connector_name of
        None \<Rightarrow> Inl KeyError
      | Some info \<Rightarrow>
          Inr (rate info /
               (case funding_payment_interval_map connector_name of
                  Some i \<Rightarrow> i
                | None \<Rightarrow> 60 * 60 * 8)))"

text \<open>
  \<^verbatim>\<open>best_combination\<close> is \<^verbatim>\<open>None\<close> or the tuple
  \<^verbatim>\<open>(connector_1, connector_2, trade_side, funding_rate_diff)\<close>.
\<close>

type_synonym combination = "string \<times> string \<times> TradeType \<times> rat"

definition consider_pair ::
  "funding_report \<Rightarrow> string \<Rightarrow> string \<Rightarrow> combination option \<times> rat
     \<Rightarrow> py_error + (combination option \<times> rat)" where
  \<comment> \<open>the body of the inner loop of \<^verbatim>\<open>get_most_profitable_combination\<close>; the loop
      variables are \<^verbatim>\<open>(best_combination, highest_profitability)\<close>\<close>
  "consider_pair funding_info_report connector_1 connector_2 acc =
     (if connector_1 \<noteq> connector_2 then
        (case get_normalized_funding_rate_in_seconds funding_info_report connector_1 of
           Inl e \<Rightarrow> Inl e
         | Inr rate_connector_1 \<Rightarrow>
        (case get_normalized_funding_rate_in_seconds funding_info_report connector_2 of
           Inl e \<Rightarrow> Inl e
         | Inr rate_connector_2 \<Rightarrow>
             (let funding_rate_diff =
                    \<bar>rate_connector_1 - rate_connector_2\<bar> * funding_profitability_interval
              in if funding_rate_diff > snd acc then
                   Inr (Some (connector_1, connector_2,
                              (if rate_connector_1 < rate_connector_2 then BUY else SELL),
                              funding_rate_diff),
                        funding_rate_diff)
                 else Inr acc)))
      else Inr acc)"

definition get_most_profitable_combination :: "funding_report \<Rightarrow> py_error + combination option" where
  "get_most_profitable_combination funding_info_report =
     (case for_each
             (\<lambda>connector_1.
                for_each (\<lambda>connector_2. consider_pair funding_info_report connector_1 connector_2)
                  (map fst funding_info_report))
             (map fst funding_info_report) (None, 0) of
        Inl e \<Rightarrow> Inl e
      | Inr (best_combination, highest_profitability) \<Rightarrow> Inr best_combination)"

text \<open>The configuration fields the two proposals read (\<^verbatim>\<open>FundingRateArbitrageConfig\<close>);
  \<^verbatim>\<open>tokens\<close> is a set, listed in the order the loop visits it.\<close>

record fra_config =
  tokens :: "string list"
  leverage :: int
  min_funding_rate_profitability :: rat
  position_size_quote :: rat
  profitability_to_take_profit :: rat
  funding_rate_diff_stop_loss :: rat
  trade_profitability_condition_to_enter :: bool

text \<open>An executor as \<^verbatim>\<open>stop_actions_proposal\<close> sees it.\<close>

record executor =
  executor_id :: string
  net_pnl_quote :: rat

text \<open>
  The collaborators outside the script, as the script calls them:
  \<^item> \<open>connectors\<close>: the keys of \<^verbatim>\<open>self.connectors\<close>, in order;
  \<^item> \<open>get_funding_info connector trading_pair\<close>;
  \<^item> \<open>get_price_for_quote_volume connector trading_pair quote_volume is_buy\<close>: the
    \<^verbatim>\<open>result_price\<close> of the market data provider's answer;
  \<^item> \<open>get_fee connector base quote amount price\<close>: the \<^verbatim>\<open>percent\<close> of the fee of a
    MARKET BUY taker order that opens a position (the other arguments are constants in
    the script);
  \<^item> \<open>get_mid_price connector trading_pair\<close>: \<^verbatim>\<open>get_price_by_type\<close> with
    \<^verbatim>\<open>PriceType.MidPrice\<close>;
  \<^item> \<open>new_config_id connector trading_pair\<close>: the id a \<^verbatim>\<open>PositionExecutorConfig\<close> gets
    when it is built;
  \<^item> \<open>get_all_executors\<close> and \<open>current_timestamp\<close>.
\<close>

record fra_env =
  connectors :: "string list"
  get_funding_info :: "string \<Rightarrow> string \<Rightarrow> funding_info"
  get_price_for_quote_volume :: "string \<Rightarrow> string \<Rightarrow> rat \<Rightarrow> bool \<Rightarrow> rat"
  get_fee :: "string \<Rightarrow> string \<Rightarrow> string \<Rightarrow> rat \<Rightarrow> rat \<Rightarrow> rat"
  get_mid_price :: "string \<Rightarrow> string \<Rightarrow> rat"
  new_config_id :: "string \<Rightarrow> string \<Rightarrow> string"
  get_all_executors :: "executor list"
  current_timestamp :: rat

record position_executor_config =
  pec_id :: string
  pec_timestamp :: rat
  pec_connector_name :: string
  pec_trading_pair :: string
  pec_side :: TradeType
  pec_amount :: rat
  pec_leverage :: int

datatype executor_action =
  CreateExecutorAction position_executor_config
| StopExecutorAction string

record funding_payment =
  fp_trading_pair :: string
  fp_amount :: rat

text \<open>An entry of \<^verbatim>\<open>self.active_funding_arbitrages\<close>.\<close>

record funding_arbitrage_info =
  connector_1 :: string
  connector_2 :: string
  executors_ids :: "string list"
  side :: TradeType
  funding_payments :: "funding_payment list"

text \<open>
  The script's own state, both dicts in insertion order.
\<close>

record fra_state =
  active_funding_arbitrages :: "(string \<times> funding_arbitrage_info) list"
  stopped_funding_arbitrages :: "(string \<times> funding_arbitrage_info list) list"

definition get_funding_info_by_token :: "fra_env \<Rightarrow> string \<Rightarrow> funding_report" where
  "get_funding_info_by_token env token =
     map (\<lambda>connector_name.
            (connector_name,
             get_funding_info env connector_name (get_trading_pair_for_connector token connector_name)))
       (connectors env)"

definition part_at :: "string list \<Rightarrow> nat \<Rightarrow> py_error + string" where
  \<comment> \<open>\<^verbatim>\<open>parts[i]\<close> for an index that is not negative\<close>
  "part_at parts i = (if i < length parts then Inr (parts ! i) else Inl IndexError)"

definition estimated_fees ::
  "fra_env \<Rightarrow> fra_config \<Rightarrow> string \<Rightarrow> string \<Rightarrow> rat \<Rightarrow> py_error + rat" where
  \<comment> \<open>the \<^verbatim>\<open>get_fee(...).percent\<close> call of \<^verbatim>\<open>get_current_profitability_after_fees\<close>,
      with its arguments evaluated left to right\<close>
  "estimated_fees env config connector trading_pair connector_price =
     (case part_at (split_on CHR ''-'' trading_pair) 0 of Inl e \<Rightarrow> Inl e | Inr base_currency \<Rightarrow>
     (case part_at (split_on CHR ''-'' trading_pair) 1 of Inl e \<Rightarrow> Inl e | Inr quote_currency \<Rightarrow>
     (case dec_div (position_size_quote config) connector_price of Inl e \<Rightarrow> Inl e | Inr amount \<Rightarrow>
        Inr (get_fee env connector base_currency quote_currency amount connector_price))))"

definition get_current_profitability_after_fees ::
  "fra_env \<Rightarrow> fra_config \<Rightarrow> string \<Rightarrow> string \<Rightarrow> string \<Rightarrow> TradeType \<Rightarrow> py_error + rat" where
  "get_current_profitability_after_fees env config token connector_1' connector_2' side' =
     (let trading_pair_1 = get_trading_pair_for_connector token connector_1';
          trading_pair_2 = get_trading_pair_for_connector token connector_2';
          connector_1_price =
            get_price_for_quote_volume env connector_1' trading_pair_1
              (position_size_quote config) (side' = BUY);
          connector_2_price =
            get_price_for_quote_volume env connector_2' trading_pair_2
              (position_size_quote config) (side' \<noteq> BUY)
      in
        (case estimated_fees env config connector_1' trading_pair_1 connector_1_price of
           Inl e \<Rightarrow> Inl e
         | Inr estimated_fees_connector_1 \<Rightarrow>
        (case estimated_fees env config connector_2' trading_pair_2 connector_2_price of
           Inl e \<Rightarrow> Inl e
         | Inr estimated_fees_connector_2 \<Rightarrow>
        (case (if side' = BUY
               then dec_div (connector_2_price - connector_1_price) connector_1_price
               else dec_div (connector_1_price - connector_2_price) connector_2_price) of
           Inl e \<Rightarrow> Inl e
         | Inr estimated_trade_pnl_pct \<Rightarrow>
             Inr (estimated_trade_pnl_pct - estimated_fees_connector_1
                    - estimated_fees_connector_2)))))"

definition get_position_executors_config ::
  "fra_env \<Rightarrow> fra_config \<Rightarrow> string \<Rightarrow> string \<Rightarrow> string \<Rightarrow> TradeType
     \<Rightarrow> py_error + (position_executor_config \<times> position_executor_config)" where
  "get_position_executors_config env config token connector_1' connector_2' trade_side =
     (let price = get_mid_price env connector_1' (get_trading_pair_for_connector token connector_1')
      in case dec_div (position_size_quote config) price of
           Inl e \<Rightarrow> Inl e
         | Inr position_amount \<Rightarrow>
             Inr (\<lparr>pec_id = new_config_id env connector_1'
                              (get_trading_pair_for_connector token connector_1'),
                   pec_timestamp = current_timestamp env,
                   pec_connector_name = connector_1',
                   pec_trading_pair = get_trading_pair_for_connector token connector_1',
                   pec_side = trade_side,
                   pec_amount = position_amount,
                   pec_leverage = leverage config\<rparr>,
                  \<lparr>pec_id = new_config_id env connector_2'
                              (get_trading_pair_for_connector token connector_2'),
                   pec_timestamp = current_timestamp env,
                   pec_connector_name = connector_2',
                   pec_trading_pair = get_trading_pair_for_connector token connector_2',
                   pec_side = (if trade_side = SELL then BUY else SELL),
                   pec_amount = position_amount,
                   pec_leverage = leverage config\<rparr>))"

fun create_actions_loop ::
  "fra_env \<Rightarrow> fra_config \<Rightarrow> string list \<Rightarrow> fra_state
     \<Rightarrow> py_error + (executor_action list \<times> fra_state)" where
  \<comment> \<open>the \<^verbatim>\<open>for token in self.config.tokens\<close> loop of \<^verbatim>\<open>create_actions_proposal\<close>:
      it returns from inside the loop at the first token it opens, and returns the
      empty \<^verbatim>\<open>create_actions\<close> when the loop ends. Unpacking \<^verbatim>\<open>best_combination\<close>
      raises \<^verbatim>\<open>TypeError\<close> when it is \<^verbatim>\<open>None\<close>.\<close>
  "create_actions_loop env config [] st = Inr ([], st)"
| "create_actions_loop env config (token # rest) st =
     (if token \<notin> set (map fst (active_funding_arbitrages st)) then
        (case get_most_profitable_combination (get_funding_info_by_token env token) of
           Inl e \<Rightarrow> Inl e
         | Inr None \<Rightarrow> Inl TypeError
         | Inr (Some (connector_1', connector_2', trade_side, expected_profitability)) \<Rightarrow>
             if expected_profitability \<ge> min_funding_rate_profitability config then
               (case get_current_profitability_after_fees env config token
                       connector_1' connector_2' trade_side of
                  Inl e \<Rightarrow> Inl e
                | Inr current_profitability \<Rightarrow>
                    if trade_profitability_condition_to_enter config \<and> current_profitability < 0
                    then create_actions_loop env config rest st
                    else
                      (case get_position_executors_config env config token
                              connector_1' connector_2' trade_side of
                         Inl e \<Rightarrow> Inl e
                       | Inr (position_executor_config_1, position_executor_config_2) \<Rightarrow>
                           Inr ([CreateExecutorAction position_executor_config_1,
                                 CreateExecutorAction position_executor_config_2],
                                st\<lparr>active_funding_arbitrages :=
                                     dict_set (active_funding_arbitrages st) token
                                       \<lparr>connector_1 = connector_1',
                                        connector_2 = connector_2',
                                        executors_ids = [pec_id position_executor_config_1,
                                                         pec_id position_executor_config_2],
                                        side = trade_side,
                                        funding_payments = []\<rparr>\<rparr>)))
             else create_actions_loop env config rest st)
      else create_actions_loop env config rest st)"

definition create_actions_proposal ::
  "fra_env \<Rightarrow> fra_config \<Rightarrow> fra_state \<Rightarrow> py_error + (executor_action list \<times> fra_state)" where
  "create_actions_proposal env config st = create_actions_loop env config (tokens config) st"

definition list_append_at ::
  "(string \<times> 'a list) list \<Rightarrow> string \<Rightarrow> 'a \<Rightarrow> py_error + (string \<times> 'a list) list" where
  \<comment> \<open>\<^verbatim>\<open>d[k].append(v)\<close>\<close>
  "list_append_at d k v =
     (case map_of d k of None \<Rightarrow> Inl KeyError | Some xs \<Rightarrow> Inr (dict_set d k (xs @ [v])))"

definition stop_actions_step ::
  "fra_env \<Rightarrow> fra_config \<Rightarrow> string \<times> funding_arbitrage_info
     \<Rightarrow> executor_action list \<times> (string \<times> funding_arbitrage_info list) list
     \<Rightarrow> py_error + (executor_action list \<times> (string \<times> funding_arbitrage_info list) list)" where
  \<comment> \<open>the body of the loop of \<^verbatim>\<open>stop_actions_proposal\<close>; the loop variables are
      \<^verbatim>\<open>stop_executor_actions\<close> and \<^verbatim>\<open>self.stopped_funding_arbitrages\<close>. The two
      branches of the source's \<^verbatim>\<open>if\<close>/\<^verbatim>\<open>elif\<close> run the same statements (but for the
      log line), here \<open>record_and_stop\<close>.\<close>
  "stop_actions_step env config item acc =
     (case item of (token, funding_arbitrage_info) \<Rightarrow>
      case acc of (stop_executor_actions, stopped) \<Rightarrow>
       (let executors = filter (\<lambda>x. executor_id x \<in> set (executors_ids funding_arbitrage_info))
                          (get_all_executors env);
            funding_payments_pnl = sum_list (map fp_amount (funding_payments funding_arbitrage_info));
            executors_pnl = sum_list (map net_pnl_quote executors);
            take_profit_condition =
              (executors_pnl + funding_payments_pnl
                 > profitability_to_take_profit config * position_size_quote config);
            funding_info_report = get_funding_info_by_token env token;
            minuend = (if side funding_arbitrage_info = BUY
                       then connector_2 funding_arbitrage_info
                       else connector_1 funding_arbitrage_info);
            subtrahend = (if side funding_arbitrage_info = BUY
                          then connector_1 funding_arbitrage_info
                          else connector_2 funding_arbitrage_info)
        in
          (case get_normalized_funding_rate_in_seconds funding_info_report minuend of
             Inl e \<Rightarrow> Inl e
           | Inr rate_a \<Rightarrow>
          (case get_normalized_funding_rate_in_seconds funding_info_report subtrahend of
             Inl e \<Rightarrow> Inl e
           | Inr rate_b \<Rightarrow>
             (let funding_rate_diff = rate_a - rate_b;
                  current_funding_condition =
                    (funding_rate_diff * funding_profitability_interval
                       < funding_rate_diff_stop_loss config);
                  record_and_stop =
                    (case list_append_at stopped token funding_arbitrage_info of
                       Inl e \<Rightarrow> Inl e
                     | Inr stopped' \<Rightarrow>
                         Inr (stop_executor_actions
                                @ map (\<lambda>executor. StopExecutorAction (executor_id executor)) executors,
                              stopped'))
              in if take_profit_condition then record_and_stop
                 else if current_funding_condition then record_and_stop
                 else Inr acc)))))"

definition stop_actions_proposal ::
  "fra_env \<Rightarrow> fra_config \<Rightarrow> fra_state \<Rightarrow> py_error + (executor_action list \<times> fra_state)" where
  "stop_actions_proposal env config st =
     (case for_each (stop_actions_step env config) (active_funding_arbitrages st)
             ([], stopped_funding_arbitrages st) of
        Inl e \<Rightarrow> Inl e
      | Inr (stop_executor_actions, stopped) \<Rightarrow>
          Inr (stop_executor_actions, st\<lparr>stopped_funding_arbitrages := stopped\<rparr>))"

text \<open>
  The invariant of the two loops of \<^verbatim>\<open>get_most_profitable_combination\<close>, after the
  pairs \<open>P\<close> have been visited: \<^verbatim>\<open>highest_profitability\<close> is at least the difference of
  every visited pair of distinct venues, and \<^verbatim>\<open>best_combination\<close> is \<^verbatim>\<open>None\<close> while it
  is still zero, or else a visited pair that attains it.
\<close>

definition combination_inv ::
  "funding_report \<Rightarrow> (string \<times> string) set \<Rightarrow> combination option \<times> rat \<Rightarrow> bool" where
  "combination_inv report P acc =
     (0 \<le> snd acc
      \<and> (\<forall>a b ra rb. (a, b) \<in> P \<and> a \<noteq> b
            \<and> get_normalized_funding_rate_in_seconds report a = Inr ra
            \<and> get_normalized_funding_rate_in_seconds report b = Inr rb
            \<longrightarrow> \<bar>ra - rb\<bar> * funding_profitability_interval \<le> snd acc)
      \<and> (case fst acc of
            None \<Rightarrow> snd acc = 0
          | Some (v1, v2, sd, d) \<Rightarrow>
              d = snd acc \<and> 0 < d \<and> v1 \<noteq> v2
              \<and> (\<exists>r1 r2. get_normalized_funding_rate_in_seconds report v1 = Inr r1
                    \<and> get_normalized_funding_rate_in_seconds report v2 = Inr r2
                    \<and> d = \<bar>r1 - r2\<bar> * funding_profitability_interval
                    \<and> sd = (if r1 < r2 then BUY else SELL))))"

text \<open>
  Three venues whose rates normalize to \<open>1e-6\<close>, \<open>3e-6\<close> and \<open>2e-6\<close> per second (intervals
  of 8 h, 1 h and the default 8 h), and two venues with the same normalized rate.
\<close>

definition three_venues :: funding_report where
  "three_venues =
     [(''binance_perpetual'', \<lparr>rate = 288 / 10000, next_funding_utc_timestamp = 0\<rparr>),
      (''hyperliquid_perpetual'', \<lparr>rate = 108 / 10000, next_funding_utc_timestamp = 0\<rparr>),
      (''okx_perpetual'', \<lparr>rate = 576 / 10000, next_funding_utc_timestamp = 0\<rparr>)]"

definition flat_venues :: funding_report where
  "flat_venues =
     [(''binance_perpetual'', \<lparr>rate = 8 / 10000, next_funding_utc_timestamp = 0\<rparr>),
      (''hyperliquid_perpetual'', \<lparr>rate = 1 / 10000, next_funding_utc_timestamp = 0\<rparr>)]"

subsection \<open>Exit conditions in the specification's words\<close>

text \<open>
  The specification states the exit conditions over the venue the position is long on
  and the venue it is short on: side BUY is long on \<open>connector_1\<close> and short on
  \<open>connector_2\<close>, any other side the reverse. These definitions follow that wording; the
  theorems compare them with \<^verbatim>\<open>stop_actions_proposal\<close>.
\<close>

definition long_venue :: "funding_arbitrage_info \<Rightarrow> string" where
  "long_venue info = (if side info = BUY then connector_1 info else connector_2 info)"

definition short_venue :: "funding_arbitrage_info \<Rightarrow> string" where
  "short_venue info = (if side info = BUY then connector_2 info else connector_1 info)"

definition arbitrage_executors :: "fra_env \<Rightarrow> funding_arbitrage_info \<Rightarrow> executor list" where
  "arbitrage_executors env info =
     filter (\<lambda>x. executor_id x \<in> set (executors_ids info)) (get_all_executors env)"

definition spec_take_profit :: "fra_env \<Rightarrow> fra_config \<Rightarrow> funding_arbitrage_info \<Rightarrow> bool" where
  "spec_take_profit env config info =
     (sum_list (map net_pnl_quote (arbitrage_executors env info))
        + sum_list (map fp_amount (funding_payments info))
      > profitability_to_take_profit config * position_size_quote config)"

text \<open>
  The normalized rate of the specification, written from its words and not from
  \<^verbatim>\<open>get_normalized_funding_rate_in_seconds\<close>: the trading pair of a token on a venue is
  the token with the venue's quote (USD on \<^verbatim>\<open>hyperliquid_perpetual\<close>, USDT on
  \<^verbatim>\<open>binance_perpetual\<close> and by default); the funding-payment interval of a venue is
  8 hours on \<^verbatim>\<open>binance_perpetual\<close>, 1 hour on \<^verbatim>\<open>hyperliquid_perpetual\<close> and 8 hours on
  a venue that is not listed; \<open>normalized(venue) = rate(venue) / funding_interval(venue)\<close>;
  the stop loss compares \<open>(normalized(short venue) - normalized(long venue)) * 86400\<close>
  with \<^verbatim>\<open>funding_rate_diff_stop_loss\<close>.
\<close>

definition spec_trading_pair :: "string \<Rightarrow> string \<Rightarrow> string" where
  "spec_trading_pair token venue =
     (if venue = ''hyperliquid_perpetual'' then token @ ''-USD'' else token @ ''-USDT'')"

definition spec_funding_interval :: "string \<Rightarrow> rat" where
  "spec_funding_interval venue =
     (if venue = ''binance_perpetual'' then 28800
      else if venue = ''hyperliquid_perpetual'' then 3600
      else 28800)"

definition spec_rate :: "fra_env \<Rightarrow> string \<Rightarrow> string \<Rightarrow> rat" where
  "spec_rate env token venue = rate (get_funding_info env venue (spec_trading_pair token venue))"

definition spec_normalized :: "fra_env \<Rightarrow> string \<Rightarrow> string \<Rightarrow> rat" where
  "spec_normalized env token venue = spec_rate env token venue / spec_funding_interval venue"

definition spec_stop_loss ::
  "fra_env \<Rightarrow> fra_config \<Rightarrow> string \<Rightarrow> funding_arbitrage_info \<Rightarrow> bool" where
  "spec_stop_loss env config token info =
     ((spec_normalized env token (short_venue info) - spec_normalized env token (long_venue info))
        * 86400
      < funding_rate_diff_stop_loss config)"

definition spec_exit :: "fra_env \<Rightarrow> fra_config \<Rightarrow> string \<Rightarrow> funding_arbitrage_info \<Rightarrow> bool" where
  "spec_exit env config token info =
     (spec_take_profit env config info \<or> spec_stop_loss env config token info)"

definition stops_of :: "fra_env \<Rightarrow> funding_arbitrage_info \<Rightarrow> executor_action list" where
  "stops_of env info =
     map (\<lambda>executor. StopExecutorAction (executor_id executor)) (arbitrage_executors env info)"

subsection \<open>Example markets\<close>

text \<open>
  Two venues as in the specification's entry scenario: \<^verbatim>\<open>binance_perpetual\<close> (8 h
  interval) with funding rate 0 and \<^verbatim>\<open>hyperliquid_perpetual\<close> (1 h interval) with the
  funding rate \<open>r\<close>. Buying costs 2 on the first and selling yields 2.01 on the
  second; every taker fee is 0.05 percent.
\<close>

definition two_venues :: "rat \<Rightarrow> executor list \<Rightarrow> fra_env" where
  "two_venues r execs =
     \<lparr>connectors = [''binance_perpetual'', ''hyperliquid_perpetual''],
      get_funding_info = (\<lambda>connector trading_pair.
         \<lparr>rate = (if connector = ''hyperliquid_perpetual'' then r else 0),
          next_funding_utc_timestamp = 3600\<rparr>),
      get_price_for_quote_volume = (\<lambda>connector trading_pair quote_volume is_buy.
         if connector = ''hyperliquid_perpetual'' then 201 / 100 else 2),
      get_fee = (\<lambda>connector base_currency quote_currency amount price. 5 / 10000),
      get_mid_price = (\<lambda>connector trading_pair. 2),
      new_config_id = (\<lambda>connector trading_pair. connector @ '':'' @ trading_pair),
      get_all_executors = execs,
      current_timestamp = 1000\<rparr>"

definition example_config :: "rat \<Rightarrow> fra_config" where
  \<comment> \<open>the defaults of the script but for the entry threshold, with the trade
      profitability condition switched on\<close>
  "example_config threshold =
     \<lparr>tokens = [''WIF'', ''FET''],
      leverage = 20,
      min_funding_rate_profitability = threshold,
      position_size_quote = 100,
      profitability_to_take_profit = 1 / 100,
      funding_rate_diff_stop_loss = - (1 / 1000),
      trade_profitability_condition_to_enter = True\<rparr>"

definition idle_state :: fra_state where
  "idle_state =
     \<lparr>active_funding_arbitrages = [],
      stopped_funding_arbitrages = [(''WIF'', []), (''FET'', [])]\<rparr>"

definition wif_config_1 :: position_executor_config where
  "wif_config_1 =
     \<lparr>pec_id = ''binance_perpetual:WIF-USDT'', pec_timestamp = 1000,
      pec_connector_name = ''binance_perpetual'', pec_trading_pair = ''WIF-USDT'',
      pec_side = BUY, pec_amount = 50, pec_leverage = 20\<rparr>"

definition wif_config_2 :: position_executor_config where
  "wif_config_2 =
     \<lparr>pec_id = ''hyperliquid_perpetual:WIF-USD'', pec_timestamp = 1000,
      pec_connector_name = ''hyperliquid_perpetual'', pec_trading_pair = ''WIF-USD'',
      pec_side = SELL, pec_amount = 50, pec_leverage = 20\<rparr>"

definition wif_arbitrage :: "funding_payment list \<Rightarrow> funding_arbitrage_info" where
  "wif_arbitrage payments =
     \<lparr>connector_1 = ''binance_perpetual'', connector_2 = ''hyperliquid_perpetual'',
      executors_ids = [''binance_perpetual:WIF-USDT'', ''hyperliquid_perpetual:WIF-USD''],
      side = BUY, funding_payments = payments\<rparr>"

definition fet_arbitrage :: "funding_payment list \<Rightarrow> funding_arbitrage_info" where
  "fet_arbitrage payments =
     \<lparr>connector_1 = ''binance_perpetual'', connector_2 = ''hyperliquid_perpetual'',
      executors_ids = [''binance_perpetual:FET-USDT'', ''hyperliquid_perpetual:FET-USD''],
      side = BUY, funding_payments = payments\<rparr>"

text \<open>
  Two open arbitrages with \<^verbatim>\<open>position_size_quote = 100\<close> and
  \<^verbatim>\<open>profitability_to_take_profit = 0.01\<close>: the combined PnL of WIF is
  \<open>0.40 + 0.10 + 0.31 + 0.20 = 1.01\<close>, that of FET is \<open>0.40 + 0.10 + 0.29 + 0.20 = 0.99\<close>.
\<close>

definition wif_payments :: "funding_payment list" where
  "wif_payments =
     [\<lparr>fp_trading_pair = ''WIF-USD'', fp_amount = 31 / 100\<rparr>,
      \<lparr>fp_trading_pair = ''WIF-USD'', fp_amount = 20 / 100\<rparr>]"

definition fet_payments :: "funding_payment list" where
  "fet_payments =
     [\<lparr>fp_trading_pair = ''FET-USD'', fp_amount = 29 / 100\<rparr>,
      \<lparr>fp_trading_pair = ''FET-USD'', fp_amount = 20 / 100\<rparr>]"

definition open_executors :: "executor list" where
  "open_executors =
     [\<lparr>executor_id = ''binance_perpetual:WIF-USDT'', net_pnl_quote = 40 / 100\<rparr>,
      \<lparr>executor_id = ''hyperliquid_perpetual:WIF-USD'', net_pnl_quote = 10 / 100\<rparr>,
      \<lparr>executor_id = ''binance_perpetual:FET-USDT'', net_pnl_quote = 40 / 100\<rparr>,
      \<lparr>executor_id = ''hyperliquid_perpetual:FET-USD'', net_pnl_quote = 10 / 100\<rparr>]"

definition open_state :: fra_state where
  "open_state =
     \<lparr>active_funding_arbitrages =
        [(''WIF'', wif_arbitrage wif_payments), (''FET'', fet_arbitrage fet_payments)],
      stopped_funding_arbitrages = [(''WIF'', []), (''FET'', [])]\<rparr>"

definition closed_state :: fra_state where
  \<comment> \<open>\<open>open_state\<close> after the take-profit exit of WIF was issued\<close>
  "closed_state =
     \<lparr>active_funding_arbitrages =
        [(''WIF'', wif_arbitrage wif_payments), (''FET'', fet_arbitrage fet_payments)],
      stopped_funding_arbitrages = [(''WIF'', [wif_arbitrage wif_payments]), (''FET'', [])]\<rparr>"

text \<open>
  Four open arbitrages on venues whose funding rates differ by market. Per day
  (rate / interval * 86400) the rates are, on \<^verbatim>\<open>binance_perpetual\<close> (8 h) and
  \<^verbatim>\<open>hyperliquid_perpetual\<close> (1 h):
  WIF \<open>0\<close> and \<open>0.0024\<close>; FET \<open>0.0024\<close> and \<open>0.0048\<close> (raw rates \<open>0.0008\<close> and
  \<open>0.0002\<close>); SOL \<open>0.003\<close> and \<open>0.001\<close>; DOGE \<open>0.0024\<close> and \<open>0.0048\<close>. WIF, FET and SOL are
  long on \<^verbatim>\<open>binance_perpetual\<close> (side BUY), DOGE is short on it (side SELL). The combined
  PnL of WIF is 1.01, that of the others 0.99.
\<close>

definition market_rates :: "((string \<times> string) \<times> rat) list" where
  "market_rates =
     [((''binance_perpetual'', ''WIF-USDT''), 0),
      ((''hyperliquid_perpetual'', ''WIF-USD''), 1 / 10000),
      ((''binance_perpetual'', ''FET-USDT''), 8 / 10000),
      ((''hyperliquid_perpetual'', ''FET-USD''), 2 / 10000),
      ((''binance_perpetual'', ''SOL-USDT''), 1 / 1000),
      ((''hyperliquid_perpetual'', ''SOL-USD''), 1 / 24000),
      ((''binance_perpetual'', ''DOGE-USDT''), 8 / 10000),
      ((''hyperliquid_perpetual'', ''DOGE-USD''), 2 / 10000)]"

definition four_executors :: "executor list" where
  "four_executors =
     [\<lparr>executor_id = ''binance_perpetual:WIF-USDT'', net_pnl_quote = 40 / 100\<rparr>,
      \<lparr>executor_id = ''hyperliquid_perpetual:WIF-USD'', net_pnl_quote = 10 / 100\<rparr>,
      \<lparr>executor_id = ''binance_perpetual:FET-USDT'', net_pnl_quote = 40 / 100\<rparr>,
      \<lparr>executor_id = ''hyperliquid_perpetual:FET-USD'', net_pnl_quote = 10 / 100\<rparr>,
      \<lparr>executor_id = ''binance_perpetual:SOL-USDT'', net_pnl_quote = 40 / 100\<rparr>,
      \<lparr>executor_id = ''hyperliquid_perpetual:SOL-USD'', net_pnl_quote = 10 / 100\<rparr>,
      \<lparr>executor_id = ''binance_perpetual:DOGE-USDT'', net_pnl_quote = 40 / 100\<rparr>,
      \<lparr>executor_id = ''hyperliquid_perpetual:DOGE-USD'', net_pnl_quote = 10 / 100\<rparr>]"

definition four_markets :: fra_env where
  "four_markets =
     \<lparr>connectors = [''binance_perpetual'', ''hyperliquid_perpetual''],
      get_funding_info = (\<lambda>connector trading_pair.
         \<lparr>rate = (case map_of market_rates (connector, trading_pair) of
                     Some r \<Rightarrow> r
                   | None \<Rightarrow> 0),
          next_funding_utc_timestamp = 3600\<rparr>),
      get_price_for_quote_volume = (\<lambda>connector trading_pair quote_volume is_buy. 2),
      get_fee = (\<lambda>connector base_currency quote_currency amount price. 5 / 10000),
      get_mid_price = (\<lambda>connector trading_pair. 2),
      new_config_id = (\<lambda>connector trading_pair. connector @ '':'' @ trading_pair),
      get_all_executors = four_executors,
      current_timestamp = 1000\<rparr>"

definition sol_arbitrage :: funding_arbitrage_info where
  "sol_arbitrage =
     \<lparr>connector_1 = ''binance_perpetual'', connector_2 = ''hyperliquid_perpetual'',
      executors_ids = [''binance_perpetual:SOL-USDT'', ''hyperliquid_perpetual:SOL-USD''],
      side = BUY,
      funding_payments =
        [\<lparr>fp_trading_pair = ''SOL-USD'', fp_amount = 29 / 100\<rparr>,
         \<lparr>fp_trading_pair = ''SOL-USD'', fp_amount = 20 / 100\<rparr>]\<rparr>"

definition doge_arbitrage :: funding_arbitrage_info where
  "doge_arbitrage =
     \<lparr>connector_1 = ''binance_perpetual'', connector_2 = ''hyperliquid_perpetual'',
      executors_ids = [''binance_perpetual:DOGE-USDT'', ''hyperliquid_perpetual:DOGE-USD''],
      side = SELL,
      funding_payments =
        [\<lparr>fp_trading_pair = ''DOGE-USDT'', fp_amount = 29 / 100\<rparr>,
         \<lparr>fp_trading_pair = ''DOGE-USDT'', fp_amount = 20 / 100\<rparr>]\<rparr>"

definition four_open :: fra_state where
  "four_open =
     \<lparr>active_funding_arbitrages =
        [(''WIF'', wif_arbitrage wif_payments), (''FET'', fet_arbitrage fet_payments),
         (''SOL'', sol_arbitrage), (''DOGE'', doge_arbitrage)],
      stopped_funding_arbitrages = [(''WIF'', []), (''FET'', []), (''SOL'', []), (''DOGE'', [])]\<rparr>"

definition four_closed :: fra_state where
  \<comment> \<open>\<open>four_open\<close> after the exits of WIF, SOL and DOGE were issued\<close>
  "four_closed =
     \<lparr>active_funding_arbitrages =
        [(''WIF'', wif_arbitrage wif_payments), (''FET'', fet_arbitrage fet_payments),
         (''SOL'', sol_arbitrage), (''DOGE'', doge_arbitrage)],
      stopped_funding_arbitrages =
        [(''WIF'', [wif_arbitrage wif_payments]), (''FET'', []),
         (''SOL'', [sol_arbitrage]), (''DOGE'', [doge_arbitrage])]\<rparr>"

section \<open>Liquidity mining: budgets and fills\<close>

text \<open>
  \<^verbatim>\<open>self._buy_budgets\<close> and \<^verbatim>\<open>self._sell_budgets\<close>, keyed by trading pair.
\<close>

record budgets =
  buy_budgets :: "string \<rightharpoonup> rat"
  sell_budgets :: "string \<rightharpoonup> rat"

text \<open>The fields of an \<^verbatim>\<open>OrderFilledEvent\<close> that \<^verbatim>\<open>did_fill_order\<close> reads.\<close>

record fill_event =
  fe_order_id :: string
  fe_trade_type :: TradeType
  fe_price :: rat
  fe_amount :: rat

definition sub_at :: "(string \<rightharpoonup> rat) \<Rightarrow> string \<Rightarrow> rat \<Rightarrow> py_error + (string \<rightharpoonup> rat)" where
  \<comment> \<open>\<^verbatim>\<open>d[k] -= v\<close>: reads \<^verbatim>\<open>d[k]\<close> first, so a missing key raises\<close>
  "sub_at d k v = (case d k of None \<Rightarrow> Inl KeyError | Some x \<Rightarrow> Inr (d(k \<mapsto> x - v)))"

definition add_at :: "(string \<rightharpoonup> rat) \<Rightarrow> string \<Rightarrow> rat \<Rightarrow> py_error + (string \<rightharpoonup> rat)" where
  \<comment> \<open>\<^verbatim>\<open>d[k] += v\<close>\<close>
  "add_at d k v = (case d k of None \<Rightarrow> Inl KeyError | Some x \<Rightarrow> Inr (d(k \<mapsto> x + v)))"

definition did_fill_order ::
  "(string \<Rightarrow> string option) \<Rightarrow> fill_event \<Rightarrow> budgets \<Rightarrow> py_error + budgets" where
  \<comment> \<open>The first argument is \<^verbatim>\<open>order_tracker.get_shadow_market_pair_from_order_id\<close>,
      reduced to the trading pair of the market it returns (\<^term>\<open>None\<close>: the order is
      not one of the strategy's). Logging and notification do not touch the budgets.\<close>
  "did_fill_order get_shadow_market_pair_from_order_id event st =
     (case get_shadow_market_pair_from_order_id (fe_order_id event) of
        None \<Rightarrow> Inr st
      | Some trading_pair \<Rightarrow>
          if fe_trade_type event = BUY then
            (case sub_at (buy_budgets st) trading_pair (fe_amount event * fe_price event) of
               Inl e \<Rightarrow> Inl e
             | Inr bb \<Rightarrow>
                 (case add_at (sell_budgets st) trading_pair (fe_amount event) of
                    Inl e \<Rightarrow> Inl e
                  | Inr sb \<Rightarrow> Inr (st\<lparr>buy_budgets := bb, sell_budgets := sb\<rparr>)))
          else
            (case sub_at (sell_budgets st) trading_pair (fe_amount event) of
               Inl e \<Rightarrow> Inl e
             | Inr sb \<Rightarrow>
                 (case add_at (buy_budgets st) trading_pair (fe_amount event * fe_price event) of
                    Inl e \<Rightarrow> Inl e
                  | Inr bb \<Rightarrow> Inr (st\<lparr>buy_budgets := bb, sell_budgets := sb\<rparr>))))"

text \<open>The fill of the specification's example: a BUY of 2 at 50 on \<^verbatim>\<open>ETH-USDT\<close>.\<close>

definition eth_fill :: fill_event where
  "eth_fill = \<lparr>fe_order_id = ''buy://ETH-USDT/1'', fe_trade_type = BUY, fe_price = 50, fe_amount = 2\<rparr>"

definition eth_tracker :: "string \<Rightarrow> string option" where
  "eth_tracker oid = (if oid = ''buy://ETH-USDT/1'' then Some ''ETH-USDT'' else None)"

definition eth_budgets :: budgets where
  "eth_budgets =
     \<lparr>buy_budgets = [''ETH-USDT'' \<mapsto> 1000, ''BTC-USDT'' \<mapsto> 700],
      sell_budgets = [''ETH-USDT'' \<mapsto> 3, ''BTC-USDT'' \<mapsto> 1 / 10]\<rparr>"

section \<open>Liquidity mining: orders, proposals and cancellation\<close>

text \<open>The fields of a \<^verbatim>\<open>LimitOrder\<close> that the strategy reads.\<close>

record limit_order =
  client_order_id :: string
  trading_pair :: string
  is_buy :: bool
  o_price :: rat
  o_quantity :: rat

text \<open>\<^verbatim>\<open>PriceSize\<close> and \<^verbatim>\<open>Proposal\<close> of \<^verbatim>\<open>data_types.py\<close>.\<close>

record price_size =
  ps_price :: rat
  ps_size :: rat

record proposal =
  market :: string
  buy :: price_size
  sell :: price_size

definition out_of_tolerance :: "rat \<Rightarrow> limit_order list \<Rightarrow> rat \<Rightarrow> py_error + bool" where
  \<comment> \<open>\<^verbatim>\<open>cur and abs(proposed - cur[0].price) / cur[0].price > tolerance\<close>: the division is
      not evaluated when \<^verbatim>\<open>cur\<close> is empty\<close>
  "out_of_tolerance tolerance cur proposed_price =
     (case cur of
        [] \<Rightarrow> Inr False
      | first # others \<Rightarrow>
          (case dec_div \<bar>proposed_price - o_price first\<bar> (o_price first) of
             Inl e \<Rightarrow> Inl e
           | Inr change \<Rightarrow> Inr (change > tolerance)))"

definition is_within_tolerance :: "rat \<Rightarrow> limit_order list \<Rightarrow> proposal \<Rightarrow> py_error + bool" where
  \<comment> \<open>the first argument is \<^verbatim>\<open>self._order_refresh_tolerance_pct\<close>\<close>
  "is_within_tolerance order_refresh_tolerance_pct cur_orders p =
     (let cur_buy = filter is_buy cur_orders;
          cur_sell = filter (\<lambda>order. \<not> is_buy order) cur_orders
      in if (cur_buy \<noteq> [] \<and> ps_size (buy p) \<le> 0) \<or> (cur_sell \<noteq> [] \<and> ps_size (sell p) \<le> 0)
         then Inr False
         else
           (case out_of_tolerance order_refresh_tolerance_pct cur_buy (ps_price (buy p)) of
              Inl e \<Rightarrow> Inl e
            | Inr True \<Rightarrow> Inr False
            | Inr False \<Rightarrow>
                (case out_of_tolerance order_refresh_tolerance_pct cur_sell (ps_price (sell p)) of
                   Inl e \<Rightarrow> Inl e
                 | Inr True \<Rightarrow> Inr False
                 | Inr False \<Rightarrow> Inr True)))"

text \<open>
  What \<^verbatim>\<open>cancel_active_orders\<close> reads besides its argument:
  \<^item> \<open>co_active_orders\<close>: \<^verbatim>\<open>self.active_orders\<close>. Every iteration reads the orders of its
    own market only, and a cancellation concerns the orders of that market, so the list
    at the start of the call is what every iteration reads as long as no two proposals
    are for the same market;
  \<^item> \<open>co_order_age\<close>: \<^verbatim>\<open>order_age\<close> of \<^verbatim>\<open>hummingbot.strategy.utils\<close>, applied to an order
    and the current timestamp;
  \<^item> \<open>co_markets\<close>: the keys of \<^verbatim>\<open>self._market_infos\<close>;
  \<^item> the current timestamp and the two settings.
\<close>

record cancel_context =
  co_active_orders :: "limit_order list"
  co_order_age :: "limit_order \<Rightarrow> rat \<Rightarrow> rat"
  co_markets :: "string list"
  co_current_timestamp :: rat
  co_max_order_age :: rat
  co_order_refresh_tolerance_pct :: rat

text \<open>
  The state it changes: \<^verbatim>\<open>self._refresh_times\<close>, and the \<^verbatim>\<open>cancel_order\<close> calls it makes
  (market and client order id, in order).
\<close>

record cancel_state =
  refresh_times :: "string \<rightharpoonup> rat"
  cancelled :: "(string \<times> string) list"

definition cancel_one :: "cancel_context \<Rightarrow> proposal \<Rightarrow> limit_order \<Rightarrow> cancel_state \<Rightarrow> py_error + cancel_state" where
  \<comment> \<open>the body of \<^verbatim>\<open>for order in cur_orders\<close>; \<^verbatim>\<open>self._market_infos[proposal.market]\<close>
      raises on a missing key\<close>
  "cancel_one ctx p order st =
     (if market p \<in> set (co_markets ctx) then
        Inr (st\<lparr>cancelled := cancelled st @ [(market p, client_order_id order)],
                refresh_times := (refresh_times st)(trading_pair order \<mapsto> co_current_timestamp ctx + 1 / 10)\<rparr>)
      else Inl KeyError)"

definition to_cancel :: "cancel_context \<Rightarrow> limit_order list \<Rightarrow> proposal \<Rightarrow> cancel_state \<Rightarrow> py_error + bool" where
  \<comment> \<open>the value of \<^verbatim>\<open>to_cancel\<close> after the \<^verbatim>\<open>if\<close>/\<^verbatim>\<open>elif\<close>; the conjuncts of the
      \<^verbatim>\<open>elif\<close> are evaluated left to right\<close>
  "to_cancel ctx cur_orders p st =
     (if cur_orders \<noteq> []
         \<and> list_ex (\<lambda>order. co_order_age ctx order (co_current_timestamp ctx) > co_max_order_age ctx) cur_orders
      then Inr True
      else
        (case refresh_times st (market p) of
           None \<Rightarrow> Inl KeyError
         | Some refresh_time \<Rightarrow>
             if refresh_time \<le> co_current_timestamp ctx \<and> cur_orders \<noteq> [] then
               (case is_within_tolerance (co_order_refresh_tolerance_pct ctx) cur_orders p of
                  Inl e \<Rightarrow> Inl e
                | Inr tolerated \<Rightarrow> Inr (\<not> tolerated))
             else Inr False))"

definition cancel_step :: "cancel_context \<Rightarrow> proposal \<Rightarrow> cancel_state \<Rightarrow> py_error + cancel_state" where
  \<comment> \<open>the body of \<^verbatim>\<open>for proposal in proposals\<close>\<close>
  "cancel_step ctx p st =
     (let cur_orders = filter (\<lambda>order. trading_pair order = market p) (co_active_orders ctx)
      in case to_cancel ctx cur_orders p st of
           Inl e \<Rightarrow> Inl e
         | Inr True \<Rightarrow> for_each (cancel_one ctx p) cur_orders st
         | Inr False \<Rightarrow> Inr st)"

definition cancel_active_orders :: "cancel_context \<Rightarrow> proposal list \<Rightarrow> cancel_state \<Rightarrow> py_error + cancel_state" where
  "cancel_active_orders ctx proposals st = for_each (cancel_step ctx) proposals st"

subsection \<open>Refresh and tolerance in the specification's words\<close>

definition live_orders :: "cancel_context \<Rightarrow> string \<Rightarrow> limit_order list" where
  "live_orders ctx m = filter (\<lambda>order. trading_pair order = m) (co_active_orders ctx)"

definition spec_side_within :: "rat \<Rightarrow> limit_order list \<Rightarrow> price_size \<Rightarrow> bool" where
  \<comment> \<open>for a side with a live order (the first one gives \<open>cur_price\<close>): the proposed size is
      positive and the relative price change is at most the tolerance\<close>
  "spec_side_within tolerance cur proposed =
     (case cur of
        [] \<Rightarrow> True
      | first # others \<Rightarrow>
          ps_size proposed > 0
          \<and> \<bar>ps_price proposed - o_price first\<bar> / o_price first \<le> tolerance)"

definition spec_within_tolerance :: "cancel_context \<Rightarrow> proposal \<Rightarrow> bool" where
  "spec_within_tolerance ctx p =
     (spec_side_within (co_order_refresh_tolerance_pct ctx)
        (filter is_buy (live_orders ctx (market p))) (buy p)
      \<and> spec_side_within (co_order_refresh_tolerance_pct ctx)
          (filter (\<lambda>order. \<not> is_buy order) (live_orders ctx (market p))) (sell p))"

definition spec_cancel :: "cancel_context \<Rightarrow> cancel_state \<Rightarrow> proposal \<Rightarrow> bool" where
  \<comment> \<open>(a) a live order of the market is older than \<^verbatim>\<open>max_order_age\<close>, or (b) the refresh
      time is reached and the proposal is not within tolerance\<close>
  "spec_cancel ctx st p =
     (list_ex (\<lambda>order. co_order_age ctx order (co_current_timestamp ctx) > co_max_order_age ctx)
        (live_orders ctx (market p))
      \<or> (case refresh_times st (market p) of
            None \<Rightarrow> False
          | Some refresh_time \<Rightarrow>
              co_current_timestamp ctx \<ge> refresh_time \<and> \<not> spec_within_tolerance ctx p))"

subsection \<open>An example book\<close>

text \<open>
  One bid and one ask on each of two markets at time 5000, with
  \<^verbatim>\<open>max_order_age = 3600\<close> and a tolerance of 0.2 percent. The proposals repeat the prices
  of the live orders. The orders of \<^verbatim>\<open>ETH-USDT\<close> are 3601 seconds old, those of
  \<^verbatim>\<open>BTC-USDT\<close> 10 seconds.
\<close>

definition example_orders :: "limit_order list" where
  "example_orders =
     [\<lparr>client_order_id = ''eth-bid'', trading_pair = ''ETH-USDT'', is_buy = True,
        o_price = 1980, o_quantity = 1\<rparr>,
      \<lparr>client_order_id = ''eth-ask'', trading_pair = ''ETH-USDT'', is_buy = False,
        o_price = 2020, o_quantity = 1\<rparr>,
      \<lparr>client_order_id = ''btc-bid'', trading_pair = ''BTC-USDT'', is_buy = True,
        o_price = 29700, o_quantity = 1 / 10\<rparr>,
      \<lparr>client_order_id = ''btc-ask'', trading_pair = ''BTC-USDT'', is_buy = False,
        o_price = 30300, o_quantity = 1 / 10\<rparr>]"

definition example_context :: cancel_context where
  "example_context =
     \<lparr>co_active_orders = example_orders,
      co_order_age = (\<lambda>order now. if trading_pair order = ''ETH-USDT'' then 3601 else 10),
      co_markets = [''ETH-USDT'', ''BTC-USDT''],
      co_current_timestamp = 5000,
      co_max_order_age = 3600,
      co_order_refresh_tolerance_pct = 2 / 1000\<rparr>"

definition example_proposals :: "proposal list" where
  "example_proposals =
     [\<lparr>market = ''ETH-USDT'', buy = \<lparr>ps_price = 1980, ps_size = 1\<rparr>,
        sell = \<lparr>ps_price = 2020, ps_size = 1\<rparr>\<rparr>,
      \<lparr>market = ''BTC-USDT'', buy = \<lparr>ps_price = 29700, ps_size = 1 / 10\<rparr>,
        sell = \<lparr>ps_price = 30300, ps_size = 1 / 10\<rparr>\<rparr>]"

definition example_refresh :: cancel_state where
  "example_refresh =
     \<lparr>refresh_times = [''ETH-USDT'' \<mapsto> 4000, ''BTC-USDT'' \<mapsto> 4000], cancelled = []\<rparr>"

section \<open>Liquidity mining: the budget allocation\<close>

















section \<open>Liquidity mining: proposals and the market-band feed\<close>

definition ascii_lower :: "char \<Rightarrow> char" where
  "ascii_lower c =
     (let n = (of_char c :: nat) in if 65 \<le> n \<and> n \<le> 90 then char_of (n + 32) else c)"

definition ascii_upper :: "char \<Rightarrow> char" where
  "ascii_upper c =
     (let n = (of_char c :: nat) in if 97 \<le> n \<and> n \<le> 122 then char_of (n - 32) else c)"

text \<open>\<^verbatim>\<open>str.lower\<close> and \<^verbatim>\<open>str.upper\<close> on ASCII text (exchange and market names).\<close>

definition lower :: "string \<Rightarrow> string" where
  "lower s = map ascii_lower s"

definition upper :: "string \<Rightarrow> string" where
  "upper s = map ascii_upper s"

text \<open>What \<^verbatim>\<open>get_spread\<close> returns when it returns data.\<close>

record spread_data =
  spread_ask :: rat
  spread_bid :: rat
  sd_timestamp :: rat

definition miner_market :: "string \<rightharpoonup> (string \<rightharpoonup> nat)" where
  "miner_market = [''binance'' \<mapsto> [''FIRO-USDT'' \<mapsto> 59, ''BIFI-USDT'' \<mapsto> 304]]"

definition get_spread :: "(nat \<Rightarrow> spread_data option) \<Rightarrow> string \<Rightarrow> string \<Rightarrow> spread_data option" where
  \<comment> \<open>\<^verbatim>\<open>MinerMarketBandDataFeed.get_spread(self, connector, trading_pair)\<close>. The first
      argument stands for the HTTP exchange with the market id: the first data row of a
      successful answer, and \<^term>\<open>None\<close> for every failure, since the method catches the
      exception of a bad status, of an unsuccessful or empty answer and of the transport,
      logs it and returns \<^verbatim>\<open>None\<close>.\<close>
  "get_spread fetch connector trading_pair' =
     (case (case miner_market (lower connector) of None \<Rightarrow> Map.empty | Some by_pair \<Rightarrow> by_pair)
             (upper trading_pair') of
        None \<Rightarrow> None
      | Some miner_market_id \<Rightarrow> fetch miner_market_id)"

text \<open>
  The strategy calls the feed as
  \<^verbatim>\<open>self._ev_loop.run_until_complete(MinerMarketBandDataFeed.get_spread(self._exchange.name, market))\<close>.
  \<^verbatim>\<open>get_spread\<close> is looked up on the class, so it is the plain function of three
  parameters \<^verbatim>\<open>(self, connector, trading_pair)\<close>, called here with two arguments: the
  call raises \<^verbatim>\<open>TypeError\<close> before any coroutine exists. \<open>feed_call_as_written\<close> is that
  call. \<open>feed_call_on_instance\<close> is the call the method's signature and the strategy's
  handling of its result are written for: the method on a feed instance, with the
  exchange name and the market.
\<close>

definition feed_call_as_written :: "string \<Rightarrow> string \<Rightarrow> py_error + spread_data option" where
  "feed_call_as_written exchange_name m = Inl TypeError"

definition feed_call_on_instance ::
  "(nat \<Rightarrow> spread_data option) \<Rightarrow> string \<Rightarrow> string \<Rightarrow> py_error + spread_data option" where
  "feed_call_on_instance fetch exchange_name m = Inr (get_spread fetch exchange_name m)"

text \<open>
  What the proposals read of the strategy: its settings, \<^verbatim>\<open>self._market_infos\<close> with the
  mid price of each market, \<^verbatim>\<open>self._volatility\<close> (a missing key is not the same as the
  value NaN, which is \<^term>\<open>Some None\<close>), the exchange's name and its
  \<^verbatim>\<open>quantize_order_price\<close>.
\<close>

record proposal_context =
  pc_exchange_name :: string
  pc_token :: string
  pc_order_amount :: rat
  pc_spread :: rat
  pc_dynamic_spread :: bool
  pc_volatility_to_spread_multiplier :: rat
  pc_max_spread :: rat
  pc_market_infos :: "(string \<times> rat) list"
  pc_volatility :: "string \<rightharpoonup> rat option"
  pc_quantize_order_price :: "string \<Rightarrow> rat \<Rightarrow> rat"

definition base_order_size :: "proposal_context \<Rightarrow> string \<Rightarrow> rat \<Rightarrow> py_error + rat" where
  "base_order_size ctx trading_pair' price =
     (case split_pair trading_pair' of
        Inl e \<Rightarrow> Inl e
      | Inr (base, quote) \<Rightarrow>
          if pc_token ctx = base then Inr (pc_order_amount ctx)
          else if price = 0 then
            (case map_of (pc_market_infos ctx) trading_pair' of
               None \<Rightarrow> Inl KeyError
             | Some mid_price \<Rightarrow> dec_div (pc_order_amount ctx) mid_price)
          else dec_div (pc_order_amount ctx) price)"

definition priced_proposal ::
  "proposal_context \<Rightarrow> string \<Rightarrow> rat \<Rightarrow> rat \<Rightarrow> rat \<Rightarrow> py_error + proposal" where
  \<comment> \<open>the statements both proposal builders share, from \<^verbatim>\<open>mid_price = ...\<close> to the
      \<^verbatim>\<open>Proposal(...)\<close>, for a bid spread and an ask spread\<close>
  "priced_proposal ctx m mid_price bid_spread ask_spread =
     (let buy_price = pc_quantize_order_price ctx m (mid_price * (1 - bid_spread))
      in case base_order_size ctx m buy_price of
           Inl e \<Rightarrow> Inl e
         | Inr buy_size \<Rightarrow>
             (let sell_price = pc_quantize_order_price ctx m (mid_price * (1 + ask_spread))
              in case base_order_size ctx m sell_price of
                   Inl e \<Rightarrow> Inl e
                 | Inr sell_size \<Rightarrow>
                     Inr \<lparr>market = m,
                          buy = \<lparr>ps_price = buy_price, ps_size = buy_size\<rparr>,
                          sell = \<lparr>ps_price = sell_price, ps_size = sell_size\<rparr>\<rparr>))"

definition static_step ::
  "proposal_context \<Rightarrow> string \<times> rat \<Rightarrow> proposal list \<Rightarrow> py_error + proposal list" where
  \<comment> \<open>the body of the loop of \<^verbatim>\<open>create_base_proposals_static\<close>\<close>
  "static_step ctx item proposals =
     (case item of (m, mid_price) \<Rightarrow>
      case pc_volatility ctx m of
        None \<Rightarrow> Inl KeyError
      | Some volatility \<Rightarrow>
          (let spread0 = pc_spread ctx;
               spread1 = (case volatility of
                            None \<Rightarrow> spread0
                          | Some vol \<Rightarrow> max spread0 (vol * pc_volatility_to_spread_multiplier ctx));
               spread2 = (if pc_max_spread ctx > 0 then min spread1 (pc_max_spread ctx) else spread1)
           in case priced_proposal ctx m mid_price spread2 spread2 of
                Inl e \<Rightarrow> Inl e
              | Inr p \<Rightarrow> Inr (proposals @ [p])))"

definition create_base_proposals_static :: "proposal_context \<Rightarrow> py_error + proposal list" where
  "create_base_proposals_static ctx = for_each (static_step ctx) (pc_market_infos ctx) []"

definition dynamic_step ::
  "(string \<Rightarrow> string \<Rightarrow> py_error + spread_data option) \<Rightarrow> proposal_context \<Rightarrow> string \<times> rat
     \<Rightarrow> proposal list \<times> string list \<Rightarrow> py_error + (proposal list \<times> string list)" where
  \<comment> \<open>the body of the loop of \<^verbatim>\<open>create_base_proposals_dynamic\<close>; the loop variables are
      \<^verbatim>\<open>proposals\<close> and the markets a warning was logged for\<close>
  "dynamic_step feed_call ctx item acc =
     (case item of (m, mid_price) \<Rightarrow>
      case acc of (proposals, warnings) \<Rightarrow>
      case feed_call (pc_exchange_name ctx) m of
        Inl e \<Rightarrow> Inl e
      | Inr None \<Rightarrow> Inr (proposals, warnings @ [m])
      | Inr (Some dynamic_spread_data) \<Rightarrow>
          (let bid_spread = spread_bid dynamic_spread_data * pc_volatility_to_spread_multiplier ctx;
               ask_spread = spread_ask dynamic_spread_data * pc_volatility_to_spread_multiplier ctx
           in case priced_proposal ctx m mid_price bid_spread ask_spread of
                Inl e \<Rightarrow> Inl e
              | Inr p \<Rightarrow> Inr (proposals @ [p], warnings)))"

definition create_base_proposals_dynamic ::
  "(string \<Rightarrow> string \<Rightarrow> py_error + spread_data option) \<Rightarrow> proposal_context
     \<Rightarrow> py_error + (proposal list \<times> string list)" where
  "create_base_proposals_dynamic feed_call ctx =
     for_each (dynamic_step feed_call ctx) (pc_market_infos ctx) ([], [])"

definition create_base_proposals ::
  "(string \<Rightarrow> string \<Rightarrow> py_error + spread_data option) \<Rightarrow> proposal_context
     \<Rightarrow> py_error + (proposal list \<times> string list)" where
  "create_base_proposals feed_call ctx =
     (if pc_dynamic_spread ctx then create_base_proposals_dynamic feed_call ctx
      else (case create_base_proposals_static ctx of
              Inl e \<Rightarrow> Inl e
            | Inr proposals \<Rightarrow> Inr (proposals, [])))"

text \<open>
  The specification's fallback scenario: \<^verbatim>\<open>dynamic_spread = true\<close> on \<^verbatim>\<open>binance\<close> with the
  one market \<^verbatim>\<open>DOGE-USDT\<close> (mid price 0.1), for which the feed has no market id; the
  configured spread is 1 percent and the order amount 100 USDT. The feed would answer
  every market id it knows.
\<close>

definition doge_context :: "bool \<Rightarrow> proposal_context" where
  "doge_context dynamic =
     \<lparr>pc_exchange_name = ''binance'',
      pc_token = ''USDT'',
      pc_order_amount = 100,
      pc_spread = 1 / 100,
      pc_dynamic_spread = dynamic,
      pc_volatility_to_spread_multiplier = 1,
      pc_max_spread = - 1,
      pc_market_infos = [(''DOGE-USDT'', 1 / 10)],
      pc_volatility = [''DOGE-USDT'' \<mapsto> None],
      pc_quantize_order_price = (\<lambda>m price. price)\<rparr>"

definition answering_feed :: "nat \<Rightarrow> spread_data option" where
  "answering_feed market_id =
     Some \<lparr>spread_ask = 2 / 1000, spread_bid = 3 / 1000, sd_timestamp = 1700000000\<rparr>"

definition doge_static_proposal :: proposal where
  "doge_static_proposal =
     \<lparr>market = ''DOGE-USDT'',
      buy = \<lparr>ps_price = 99 / 1000, ps_size = 100 / (99 / 1000)\<rparr>,
      sell = \<lparr>ps_price = 101 / 1000, ps_size = 100 / (101 / 1000)\<rparr>\<rparr>"

section \<open>Liquidity mining: the volatility estimator\<close>

definition py_slice :: "'a list \<Rightarrow> int \<Rightarrow> int \<Rightarrow> 'a list" where
  \<comment> \<open>\<^verbatim>\<open>xs[start:stop]\<close>: a negative bound counts from the end, and both bounds are
      clamped to the list\<close>
  "py_slice xs start stop =
     (let n = int (length xs);
          lo = (if start < 0 then max (start + n) 0 else min start n);
          hi = (if stop < 0 then max (stop + n) 0 else min stop n)
      in take (nat (hi - lo)) (drop (nat lo) xs))"

definition range_ratio :: "rat list \<Rightarrow> py_error + rat" where
  \<comment> \<open>\<^verbatim>\<open>(max(prices) - min(prices)) / min(prices)\<close> for a list that is not empty\<close>
  "range_ratio prices = dec_div (Max (set prices) - Min (set prices)) (Min (set prices))"

function atr_loop :: "rat list \<Rightarrow> int \<Rightarrow> int \<Rightarrow> int \<Rightarrow> int \<Rightarrow> py_error + rat list" where
  \<comment> \<open>\<^verbatim>\<open>for i in range(i, stop, step): ...\<close> with the loop's body, returning what the
      body appends to \<^verbatim>\<open>atr\<close>; \<^verbatim>\<open>break\<close> ends the loop\<close>
  "atr_loop mid_prices volatility_interval step stop i =
     (if (step < 0 \<and> i > stop) \<or> (step > 0 \<and> i < stop) then
        (let prices = py_slice mid_prices (i - volatility_interval + 1) (i + 1)
         in if prices = [] then Inr []
            else
              (case range_ratio prices of
                 Inl e \<Rightarrow> Inl e
               | Inr ratio \<Rightarrow>
                   (case atr_loop mid_prices volatility_interval step stop (i + step) of
                      Inl e \<Rightarrow> Inl e
                    | Inr atr \<Rightarrow> Inr (ratio # atr))))
      else Inr [])"
  by pat_completeness auto
termination
  by (relation "measure (\<lambda>(mid_prices, volatility_interval, step, stop, i).
                  if step < 0 then nat (i - stop) else nat (stop - i))") auto

declare atr_loop.simps [simp del]

definition market_volatility :: "int \<Rightarrow> int \<Rightarrow> rat list \<Rightarrow> py_error + rat option" where
  \<comment> \<open>the body of the loop over \<^verbatim>\<open>self._mid_prices.items()\<close> in \<^verbatim>\<open>update_volatility\<close>:
      the new volatility of one market, \<^term>\<open>None\<close> when it stays NaN. A step of 0 makes
      \<^verbatim>\<open>range\<close> raise \<^verbatim>\<open>ValueError\<close>.\<close>
  "market_volatility volatility_interval avg_volatility_period mid_prices =
     (let last_index = int (length mid_prices) - 1;
          first_index = max (last_index - volatility_interval * avg_volatility_period) 0
      in if volatility_interval * - 1 = 0 then Inl ValueError
         else
           (case atr_loop mid_prices volatility_interval (volatility_interval * - 1)
                   first_index last_index of
              Inl e \<Rightarrow> Inl e
            | Inr atr \<Rightarrow>
                if atr \<noteq> [] then Inr (Some (sum_list atr / of_nat (length atr)))
                else Inr None))"

definition update_volatility ::
  "int \<Rightarrow> int \<Rightarrow> string list \<Rightarrow> (string \<times> rat list) list \<Rightarrow> py_error + (string \<rightharpoonup> rat option)" where
  \<comment> \<open>\<^verbatim>\<open>self._volatility\<close> after \<^verbatim>\<open>update_volatility\<close>, from the keys of
      \<^verbatim>\<open>self._market_infos\<close> and the items of \<^verbatim>\<open>self._mid_prices\<close>. The report of the
      volatilities to the log changes nothing but \<^verbatim>\<open>self._last_vol_reported\<close>.\<close>
  "update_volatility volatility_interval avg_volatility_period markets mid_prices_by_market =
     for_each
       (\<lambda>(m, mid_prices) volatility.
          case market_volatility volatility_interval avg_volatility_period mid_prices of
            Inl e \<Rightarrow> Inl e
          | Inr None \<Rightarrow> Inr volatility
          | Inr (Some vol) \<Rightarrow> Inr (volatility(m \<mapsto> Some vol)))
       mid_prices_by_market
       (\<lambda>m. if m \<in> set markets then Some None else None)"

subsection \<open>The estimator in the specification's words\<close>

text \<open>
  The windows of length \<open>volatility_interval\<close>, walking backward from the newest sample:
  window \<open>k\<close> ends \<open>k * volatility_interval\<close> samples before the end. Only full windows
  count, and at most \<open>avg_volatility_period\<close> of them.
\<close>

definition spec_windows :: "nat \<Rightarrow> nat \<Rightarrow> rat list \<Rightarrow> rat list list" where
  "spec_windows volatility_interval avg_volatility_period mid_prices =
     map (\<lambda>k. take volatility_interval
                (drop (length mid_prices - (k + 1) * volatility_interval) mid_prices))
       [0 ..< min avg_volatility_period (length mid_prices div volatility_interval)]"

fun spec_ratios :: "rat list list \<Rightarrow> py_error + rat list" where
  \<comment> \<open>\<open>(max - min) / min\<close> of every window, in order; the division is the decimal one\<close>
  "spec_ratios [] = Inr []"
| "spec_ratios (w # ws) =
     (case range_ratio w of
        Inl e \<Rightarrow> Inl e
      | Inr ratio \<Rightarrow> (case spec_ratios ws of Inl e \<Rightarrow> Inl e | Inr rs \<Rightarrow> Inr (ratio # rs)))"

definition spec_volatility :: "nat \<Rightarrow> nat \<Rightarrow> rat list \<Rightarrow> rat option" where
  \<comment> \<open>the arithmetic mean of the windows' ratios; NaN without a full window\<close>
  "spec_volatility volatility_interval avg_volatility_period mid_prices =
     (let ws = spec_windows volatility_interval avg_volatility_period mid_prices
      in if ws = [] then None
         else Some (sum_list (map (\<lambda>w. (Max (set w) - Min (set w)) / Min (set w)) ws)
                      / of_nat (length ws)))"

text \<open>
  A triangle wave of seven samples for windows of three, and a buffer whose second
  window has the minimum 0.
\<close>

definition triangle_wave :: "rat list" where
  "triangle_wave = [90, 100, 110, 100, 100, 125, 100]"

definition touching_zero :: "rat list" where
  "touching_zero = [0, 1, 100, 110]"

section \<open>Funding-rate arbitrage: scoring venue pairs\<close>

lemma normalized_rate_iff_key:
  "(\<exists>r. get_normalized_funding_rate_in_seconds report c = Inr r) \<longleftrightarrow> c \<in> set (map fst report)"
  by (auto simp: get_normalized_funding_rate_in_seconds_def map_of_eq_None_iff
           split: option.splits dest: map_of_SomeD intro: rev_image_eqI)

lemma consider_pair_inv:
  assumes "combination_inv report P acc"
    and "c1 \<in> set (map fst report)" and "c2 \<in> set (map fst report)"
  shows "\<exists>acc'. consider_pair report c1 c2 acc = Inr acc'
           \<and> combination_inv report (insert (c1, c2) P) acc'"
proof -
  obtain r1 where r1: "get_normalized_funding_rate_in_seconds report c1 = Inr r1"
    using assms(2) normalized_rate_iff_key by blast
  obtain r2 where r2: "get_normalized_funding_rate_in_seconds report c2 = Inr r2"
    using assms(3) normalized_rate_iff_key by blast
  show ?thesis
  proof (cases "c1 = c2")
    case True
    then show ?thesis using assms(1)
      by (auto simp: consider_pair_def combination_inv_def)
  next
    case False
    show ?thesis
    proof (cases "\<bar>r1 - r2\<bar> * funding_profitability_interval > snd acc")
      case True
      have "consider_pair report c1 c2 acc =
              Inr (Some (c1, c2, (if r1 < r2 then BUY else SELL),
                         \<bar>r1 - r2\<bar> * funding_profitability_interval),
                   \<bar>r1 - r2\<bar> * funding_profitability_interval)"
        using False True r1 r2 by (simp add: consider_pair_def Let_def)
      moreover have "combination_inv report (insert (c1, c2) P)
              (Some (c1, c2, (if r1 < r2 then BUY else SELL),
                     \<bar>r1 - r2\<bar> * funding_profitability_interval),
               \<bar>r1 - r2\<bar> * funding_profitability_interval)"
        using assms(1) False True r1 r2
        unfolding combination_inv_def by (fastforce split: option.splits)
      ultimately show ?thesis by blast
    next
      case no: False
      have "consider_pair report c1 c2 acc = Inr acc"
        using False no r1 r2 by (simp add: consider_pair_def Let_def)
      moreover have "combination_inv report (insert (c1, c2) P) acc"
        using assms(1) False no r1 r2
        unfolding combination_inv_def by (fastforce split: option.splits)
      ultimately show ?thesis by blast
    qed
  qed
qed

lemma inner_loop_inv:
  assumes "combination_inv report P acc"
    and "c1 \<in> set (map fst report)" and "set ys \<subseteq> set (map fst report)"
  shows "\<exists>acc'. for_each (consider_pair report c1) ys acc = Inr acc'
           \<and> combination_inv report (P \<union> {c1} \<times> set ys) acc'"
  using assms
proof (induction ys arbitrary: P acc)
  case Nil
  then show ?case by simp
next
  case (Cons y ys)
  from Cons.prems obtain acc1 where
    s: "consider_pair report c1 y acc = Inr acc1"
    and i: "combination_inv report (insert (c1, y) P) acc1"
    using consider_pair_inv [of report P acc c1 y] by auto
  from Cons.IH [OF i] Cons.prems obtain acc' where
    l: "for_each (consider_pair report c1) ys acc1 = Inr acc'"
    and j: "combination_inv report (insert (c1, y) P \<union> {c1} \<times> set ys) acc'"
    by auto
  have "insert (c1, y) P \<union> {c1} \<times> set ys = P \<union> {c1} \<times> set (y # ys)" by auto
  with s l j show ?case by simp
qed

lemma outer_loop_inv:
  assumes "combination_inv report P acc"
    and "set xs \<subseteq> set (map fst report)" and "set ys \<subseteq> set (map fst report)"
  shows "\<exists>acc'. for_each (\<lambda>c1. for_each (consider_pair report c1) ys) xs acc = Inr acc'
           \<and> combination_inv report (P \<union> set xs \<times> set ys) acc'"
  using assms
proof (induction xs arbitrary: P acc)
  case Nil
  then show ?case by simp
next
  case (Cons x xs)
  from Cons.prems obtain acc1 where
    s: "for_each (consider_pair report x) ys acc = Inr acc1"
    and i: "combination_inv report (P \<union> {x} \<times> set ys) acc1"
    using inner_loop_inv [of report P acc x ys] by auto
  from Cons.IH [OF i] Cons.prems obtain acc' where
    l: "for_each (\<lambda>c1. for_each (consider_pair report c1) ys) xs acc1 = Inr acc'"
    and j: "combination_inv report (P \<union> {x} \<times> set ys \<union> set xs \<times> set ys) acc'"
    by auto
  have "P \<union> {x} \<times> set ys \<union> set xs \<times> set ys = P \<union> set (x # xs) \<times> set ys" by auto
  with s l j show ?case by simp
qed

lemma combination_loops:
  "\<exists>best h. for_each (\<lambda>c1. for_each (consider_pair report c1) (map fst report))
               (map fst report) (None, 0) = Inr (best, h)
     \<and> combination_inv report (set (map fst report) \<times> set (map fst report)) (best, h)"
proof -
  have "combination_inv report {} (None, 0)"
    by (simp add: combination_inv_def)
  from outer_loop_inv [OF this, of "map fst report" "map fst report"]
  show ?thesis by auto
qed

text \<open>
  Claim C5, as amended. When two venues of the report have different normalized rates
  (\<open>normalized(v) = rate(v) / funding_interval(v)\<close>),
  \<^verbatim>\<open>get_most_profitable_combination\<close> returns a pair \<open>(v1, v2)\<close> of distinct venues
  whose \<open>|normalized(v1) - normalized(v2)| * funding_profitability_interval\<close> is the
  largest over all ordered pairs of distinct venues, with side BUY when
  \<open>normalized(v1) < normalized(v2)\<close> and SELL otherwise. When all venues have the same
  normalized rate (also with one venue or none) it returns \<^verbatim>\<open>None\<close>.
\<close>

theorem most_profitable_combination_maximal:
  "if (\<exists>a b ra rb. get_normalized_funding_rate_in_seconds report a = Inr ra
          \<and> get_normalized_funding_rate_in_seconds report b = Inr rb \<and> ra \<noteq> rb)
   then (\<exists>v1 v2 r1 r2.
           get_most_profitable_combination report =
             Inr (Some (v1, v2, (if r1 < r2 then BUY else SELL),
                        \<bar>r1 - r2\<bar> * funding_profitability_interval))
         \<and> v1 \<noteq> v2
         \<and> get_normalized_funding_rate_in_seconds report v1 = Inr r1
         \<and> get_normalized_funding_rate_in_seconds report v2 = Inr r2
         \<and> (\<forall>x y rx ry. x \<noteq> y
               \<and> get_normalized_funding_rate_in_seconds report x = Inr rx
               \<and> get_normalized_funding_rate_in_seconds report y = Inr ry
               \<longrightarrow> \<bar>rx - ry\<bar> * funding_profitability_interval
                     \<le> \<bar>r1 - r2\<bar> * funding_profitability_interval))
   else get_most_profitable_combination report = Inr None"
proof -
  obtain best h where
    run: "for_each (\<lambda>c1. for_each (consider_pair report c1) (map fst report))
            (map fst report) (None, 0) = Inr (best, h)"
    and inv: "combination_inv report (set (map fst report) \<times> set (map fst report)) (best, h)"
    using combination_loops by blast
  have res: "get_most_profitable_combination report = Inr best"
    using run by (simp add: get_most_profitable_combination_def)
  have bound: "\<bar>rx - ry\<bar> * funding_profitability_interval \<le> h"
    if "x \<noteq> y" "get_normalized_funding_rate_in_seconds report x = Inr rx"
      "get_normalized_funding_rate_in_seconds report y = Inr ry" for x y rx ry
  proof -
    have "x \<in> set (map fst report)" "y \<in> set (map fst report)"
      using that normalized_rate_iff_key by blast+
    then show ?thesis using inv that unfolding combination_inv_def by fastforce
  qed
  show ?thesis
  proof (cases "\<exists>a b ra rb. get_normalized_funding_rate_in_seconds report a = Inr ra
          \<and> get_normalized_funding_rate_in_seconds report b = Inr rb \<and> ra \<noteq> rb")
    case True
    then obtain a b ra rb where ab:
      "get_normalized_funding_rate_in_seconds report a = Inr ra"
      "get_normalized_funding_rate_in_seconds report b = Inr rb" "ra \<noteq> rb"
      by blast
    then have "a \<noteq> b" by auto
    have "0 < \<bar>ra - rb\<bar> * funding_profitability_interval"
      using ab(3) by (simp add: funding_profitability_interval_def)
    with bound [OF \<open>a \<noteq> b\<close> ab(1,2)] have "0 < h" by simp
    with inv obtain v1 v2 sd d where b: "best = Some (v1, v2, sd, d)"
      unfolding combination_inv_def by (cases best) auto
    with inv obtain r1 r2 where
      "d = h" "v1 \<noteq> v2"
      "get_normalized_funding_rate_in_seconds report v1 = Inr r1"
      "get_normalized_funding_rate_in_seconds report v2 = Inr r2"
      "d = \<bar>r1 - r2\<bar> * funding_profitability_interval"
      "sd = (if r1 < r2 then BUY else SELL)"
      unfolding combination_inv_def by auto
    with res b bound have "\<exists>v1 v2 r1 r2.
           get_most_profitable_combination report =
             Inr (Some (v1, v2, (if r1 < r2 then BUY else SELL),
                        \<bar>r1 - r2\<bar> * funding_profitability_interval))
         \<and> v1 \<noteq> v2
         \<and> get_normalized_funding_rate_in_seconds report v1 = Inr r1
         \<and> get_normalized_funding_rate_in_seconds report v2 = Inr r2
         \<and> (\<forall>x y rx ry. x \<noteq> y
               \<and> get_normalized_funding_rate_in_seconds report x = Inr rx
               \<and> get_normalized_funding_rate_in_seconds report y = Inr ry
               \<longrightarrow> \<bar>rx - ry\<bar> * funding_profitability_interval
                     \<le> \<bar>r1 - r2\<bar> * funding_profitability_interval)"
      by (intro exI [of _ v1] exI [of _ v2] exI [of _ r1] exI [of _ r2]) auto
    then show ?thesis by (subst if_P) (rule True)
  next
    case False
    have "best = None"
    proof (cases best)
      case None then show ?thesis .
    next
      case (Some c)
      then obtain v1 v2 sd d where "best = Some (v1, v2, sd, d)" by (cases c) auto
      with inv obtain r1 r2 where
        pos: "0 < d"
        and n1: "get_normalized_funding_rate_in_seconds report v1 = Inr r1"
        and n2: "get_normalized_funding_rate_in_seconds report v2 = Inr r2"
        and d: "d = \<bar>r1 - r2\<bar> * funding_profitability_interval"
        unfolding combination_inv_def by auto
      from False n1 n2 have "r1 = r2" by blast
      with pos d show ?thesis by simp
    qed
    with res False show ?thesis by simp
  qed
qed

text \<open>
  The three venues of the specification's example, normalizing to \<open>1e-6\<close>, \<open>3e-6\<close> and
  \<open>2e-6\<close> per second: the first pair with the largest difference is kept, side BUY.
\<close>

theorem most_profitable_combination_maximal_witness:
  "get_normalized_funding_rate_in_seconds three_venues ''binance_perpetual'' = Inr (1 / 1000000)
   \<and> get_normalized_funding_rate_in_seconds three_venues ''hyperliquid_perpetual'' = Inr (3 / 1000000)
   \<and> get_normalized_funding_rate_in_seconds three_venues ''okx_perpetual'' = Inr (2 / 1000000)
   \<and> get_most_profitable_combination three_venues =
         Inr (Some (''binance_perpetual'', ''hyperliquid_perpetual'', BUY, 2 / 1000000 * 86400))"
proof -
  have n1: "get_normalized_funding_rate_in_seconds three_venues ''binance_perpetual'' = Inr (1 / 1000000)"
    by code_simp
  have n2: "get_normalized_funding_rate_in_seconds three_venues ''hyperliquid_perpetual'' = Inr (3 / 1000000)"
    by code_simp
  have n3: "get_normalized_funding_rate_in_seconds three_venues ''okx_perpetual'' = Inr (2 / 1000000)"
    by code_simp
  have differ: "\<exists>a b ra rb. get_normalized_funding_rate_in_seconds three_venues a = Inr ra
          \<and> get_normalized_funding_rate_in_seconds three_venues b = Inr rb \<and> ra \<noteq> rb"
    using n1 n2 by (intro exI [of _ "''binance_perpetual''"] exI [of _ "''hyperliquid_perpetual''"]
        exI [of _ "1 / 1000000"] exI [of _ "3 / 1000000"]) simp
  obtain v1 v2 r1 r2 where
    "get_most_profitable_combination three_venues =
       Inr (Some (v1, v2, (if r1 < r2 then BUY else SELL),
                  \<bar>r1 - r2\<bar> * funding_profitability_interval))"
    using most_profitable_combination_maximal [of three_venues, unfolded if_P [OF differ]]
    by blast
  moreover have "get_most_profitable_combination three_venues =
         Inr (Some (''binance_perpetual'', ''hyperliquid_perpetual'', BUY, 2 / 1000000 * 86400))"
    by code_simp
  ultimately show ?thesis using n1 n2 n3 by simp
qed

text \<open>
  The claim as written promises a pair for every report. Two venues whose rates
  normalize to the same value give \<^verbatim>\<open>None\<close>.
\<close>

theorem most_profitable_combination_counterexample:
  "get_most_profitable_combination flat_venues = Inr None"
  by code_simp

section \<open>Funding-rate arbitrage: entering\<close>




lemma profitability_after_fees_formula:
  assumes "get_current_profitability_after_fees env config token c1 c2 sd = Inr p"
  defines "price_1 \<equiv> get_price_for_quote_volume env c1 (get_trading_pair_for_connector token c1)
                        (position_size_quote config) (sd = BUY)"
    and "price_2 \<equiv> get_price_for_quote_volume env c2 (get_trading_pair_for_connector token c2)
                        (position_size_quote config) (sd \<noteq> BUY)"
  shows "\<exists>fees_1 fees_2.
           estimated_fees env config c1 (get_trading_pair_for_connector token c1) price_1 = Inr fees_1
         \<and> estimated_fees env config c2 (get_trading_pair_for_connector token c2) price_2 = Inr fees_2
         \<and> price_1 \<noteq> 0 \<and> price_2 \<noteq> 0
         \<and> p = (if sd = BUY then (price_2 - price_1) / price_1
                 else (price_1 - price_2) / price_2) - fees_1 - fees_2"
proof -
  let ?f1 = "estimated_fees env config c1 (get_trading_pair_for_connector token c1) price_1"
  let ?f2 = "estimated_fees env config c2 (get_trading_pair_for_connector token c2) price_2"
  from assms(1) obtain fees_1 where f1: "?f1 = Inr fees_1"
    unfolding get_current_profitability_after_fees_def Let_def price_1_def
    by (cases "estimated_fees env config c1 (get_trading_pair_for_connector token c1)
                 (get_price_for_quote_volume env c1 (get_trading_pair_for_connector token c1)
                    (position_size_quote config) (sd = BUY))") simp_all
  from assms(1) f1 obtain fees_2 where f2: "?f2 = Inr fees_2"
    unfolding get_current_profitability_after_fees_def Let_def price_1_def price_2_def
    by (cases "estimated_fees env config c2 (get_trading_pair_for_connector token c2)
                 (get_price_for_quote_volume env c2 (get_trading_pair_for_connector token c2)
                    (position_size_quote config) (sd \<noteq> BUY))") simp_all
  have n1: "price_1 \<noteq> 0"
    using f1 unfolding estimated_fees_def dec_div_def
    by (auto split: sum.splits if_splits)
  have n2: "price_2 \<noteq> 0"
    using f2 unfolding estimated_fees_def dec_div_def
    by (auto split: sum.splits if_splits)
  have "p = (if sd = BUY then (price_2 - price_1) / price_1
             else (price_1 - price_2) / price_2) - fees_1 - fees_2"
    using assms(1) f1 f2 n1 n2
    unfolding get_current_profitability_after_fees_def Let_def price_1_def price_2_def dec_div_def
    by (simp split: if_splits)
  with f1 f2 n1 n2 show ?thesis by blast
qed



text \<open>
  Claim C9 (the code departs from it). Two venues whose funding rates normalize to the
  same value, here both 0: \<^verbatim>\<open>get_most_profitable_combination\<close> returns \<^verbatim>\<open>None\<close>, and
  \<^verbatim>\<open>create_actions_proposal\<close> raises \<^verbatim>\<open>TypeError\<close> when it unpacks it.
\<close>

theorem create_actions_proposal_raises_on_equal_rates:
  "get_most_profitable_combination (get_funding_info_by_token (two_venues 0 []) ''WIF'') = Inr None
   \<and> create_actions_proposal (two_venues 0 []) (example_config (1 / 1000)) idle_state
       = Inl TypeError"
  by code_simp

section \<open>Funding-rate arbitrage: leaving\<close>

lemma map_of_dict_set: "map_of (dict_set d k v) = (map_of d)(k \<mapsto> v)"
  by (induction d k v rule: dict_set.induct) auto

lemma map_fst_dict_set_present:
  "k \<in> set (map fst d) \<Longrightarrow> map fst (dict_set d k v) = map fst d"
  by (induction d k v rule: dict_set.induct) auto

lemma map_of_keyed: "c \<in> set cs \<Longrightarrow> map_of (map (\<lambda>k. (k, f k)) cs) c = Some (f c)"
  by (induction cs) auto

lemma trading_pair_for_connector_spec:
  "get_trading_pair_for_connector token c = spec_trading_pair token c"
  by (simp add: get_trading_pair_for_connector_def quote_markets_map_def spec_trading_pair_def)

lemma funding_payment_interval_spec:
  "(case funding_payment_interval_map c of Some i \<Rightarrow> i | None \<Rightarrow> 60 * 60 * 8)
     = spec_funding_interval c"
  by (simp add: funding_payment_interval_map_def spec_funding_interval_def)

lemma listed_connector_rate:
  assumes "c \<in> set (connectors env)"
  shows "get_normalized_funding_rate_in_seconds (get_funding_info_by_token env token) c
           = Inr (spec_normalized env token c)"
proof -
  have "map_of (get_funding_info_by_token env token) c =
          Some (get_funding_info env c (spec_trading_pair token c))"
    unfolding get_funding_info_by_token_def trading_pair_for_connector_spec
    using assms by (rule map_of_keyed)
  then show ?thesis
    by (simp add: get_normalized_funding_rate_in_seconds_def funding_payment_interval_spec
        spec_normalized_def spec_rate_def)
qed

lemma stop_actions_step_exit:
  assumes "connector_1 info \<in> set (connectors env)"
    and "connector_2 info \<in> set (connectors env)"
    and "map_of stopped token = Some old"
  shows "stop_actions_step env config (token, info) (acts, stopped) =
           Inr (if spec_exit env config token info
                then (acts @ stops_of env info, dict_set stopped token (old @ [info]))
                else (acts, stopped))"
proof -
  have r1: "get_normalized_funding_rate_in_seconds
      (get_funding_info_by_token env token) (connector_1 info)
        = Inr (spec_normalized env token (connector_1 info))"
    using assms(1) by (rule listed_connector_rate)
  have r2: "get_normalized_funding_rate_in_seconds
      (get_funding_info_by_token env token) (connector_2 info)
        = Inr (spec_normalized env token (connector_2 info))"
    using assms(2) by (rule listed_connector_rate)
  have day: "funding_profitability_interval = 86400"
    by (simp add: funding_profitability_interval_def)
  show ?thesis
    using r1 r2 assms(3)
    by (simp add: stop_actions_step_def spec_exit_def spec_take_profit_def spec_stop_loss_def
        long_venue_def short_venue_def stops_of_def arbitrage_executors_def list_append_at_def
        day Let_def)
qed

lemma stop_actions_loop:
  assumes "distinct (map fst xs)"
    and "\<forall>(token, info)\<in>set xs. connector_1 info \<in> set (connectors env)
            \<and> connector_2 info \<in> set (connectors env)
            \<and> token \<in> set (map fst stopped)"
  shows "\<exists>stopped'. for_each (stop_actions_step env config) xs (acts, stopped) =
             Inr (acts @ concat (map (\<lambda>(token, info).
                     if spec_exit env config token info then stops_of env info else []) xs),
                  stopped')
           \<and> map fst stopped' = map fst stopped
           \<and> (\<forall>token. token \<notin> set (map fst xs) \<longrightarrow> map_of stopped' token = map_of stopped token)
           \<and> (\<forall>(token, info)\<in>set xs.
                 map_of stopped' token =
                   (if spec_exit env config token info
                    then map_option (\<lambda>old. old @ [info]) (map_of stopped token)
                    else map_of stopped token))"
  using assms
proof (induction xs arbitrary: acts stopped)
  case Nil
  then show ?case by simp
next
  case (Cons x xs)
  obtain token info where x: "x = (token, info)" by (cases x)
  from Cons.prems x have c: "connector_1 info \<in> set (connectors env)"
    "connector_2 info \<in> set (connectors env)" and k: "token \<in> set (map fst stopped)"
    by auto
  from k obtain old where old: "map_of stopped token = Some old"
    by (metis map_of_eq_None_iff not_Some_eq set_map)
  define acts1 where "acts1 = (if spec_exit env config token info then acts @ stops_of env info else acts)"
  define stopped1 where "stopped1 =
    (if spec_exit env config token info then dict_set stopped token (old @ [info]) else stopped)"
  have step: "stop_actions_step env config x (acts, stopped) = Inr (acts1, stopped1)"
    using stop_actions_step_exit [OF c old] by (simp add: x acts1_def stopped1_def)
  have keys1: "map fst stopped1 = map fst stopped"
    using k by (simp add: stopped1_def map_fst_dict_set_present)
  have m1: "map_of stopped1 =
      (if spec_exit env config token info then (map_of stopped)(token \<mapsto> old @ [info])
       else map_of stopped)"
    by (simp add: stopped1_def map_of_dict_set)
  have "distinct (map fst xs)" using Cons.prems by simp
  moreover have "\<forall>(token, info)\<in>set xs. connector_1 info \<in> set (connectors env)
            \<and> connector_2 info \<in> set (connectors env)
            \<and> token \<in> set (map fst stopped1)"
    using Cons.prems keys1 by auto
  ultimately obtain stopped' where
    run: "for_each (stop_actions_step env config) xs (acts1, stopped1) =
             Inr (acts1 @ concat (map (\<lambda>(token, info).
                     if spec_exit env config token info then stops_of env info else []) xs),
                  stopped')"
    and keys: "map fst stopped' = map fst stopped1"
    and frame: "\<forall>token. token \<notin> set (map fst xs) \<longrightarrow> map_of stopped' token = map_of stopped1 token"
    and upd: "\<forall>(token, info)\<in>set xs.
                 map_of stopped' token =
                   (if spec_exit env config token info
                    then map_option (\<lambda>old. old @ [info]) (map_of stopped1 token)
                    else map_of stopped1 token)"
    using Cons.IH [of stopped1 acts1] by blast
  have fresh: "token \<notin> set (map fst xs)" using Cons.prems x by auto
  have a: "for_each (stop_actions_step env config) (x # xs) (acts, stopped) =
             Inr (acts @ concat (map (\<lambda>(token, info).
                     if spec_exit env config token info then stops_of env info else []) (x # xs)),
                  stopped')"
    using step run by (simp add: x acts1_def)
  have b: "\<forall>t. t \<notin> set (map fst (x # xs)) \<longrightarrow> map_of stopped' t = map_of stopped t"
    using frame m1 by (auto simp: x)
  have c1: "map_of stopped' token =
                   (if spec_exit env config token info
                    then map_option (\<lambda>old. old @ [info]) (map_of stopped token)
                    else map_of stopped token)"
    using frame fresh m1 old by simp
  have c2: "\<forall>(t, i)\<in>set xs.
                 map_of stopped' t =
                   (if spec_exit env config t i
                    then map_option (\<lambda>old. old @ [i]) (map_of stopped t)
                    else map_of stopped t)"
  proof (intro ballI, clarify)
    fix t i assume ti: "(t, i) \<in> set xs"
    then have "t \<noteq> token" using fresh by force
    then have "map_of stopped1 t = map_of stopped t" using m1 by simp
    with upd ti show "map_of stopped' t =
                   (if spec_exit env config t i
                    then map_option (\<lambda>old. old @ [i]) (map_of stopped t)
                    else map_of stopped t)" by force
  qed
  from a b c1 c2 keys keys1 show ?case by (auto simp: x)
qed

text \<open>
  Claim C6. Let the active arbitrages have distinct tokens, venues among the connectors
  and tokens with a stopped-history list (as the constructor and
  \<^verbatim>\<open>create_actions_proposal\<close> leave them). Then \<^verbatim>\<open>stop_actions_proposal\<close> returns; it
  issues the stop actions of an arbitrage's executors, and appends the arbitrage to the
  stopped history of its token, exactly when the take-profit condition
  \<open>sum(net_pnl_quote) + sum(funding_payments.amount) >
  profitability_to_take_profit * position_size_quote\<close> holds (strictly) or the stop-loss
  condition \<open>(normalized(short venue) - normalized(long venue)) * 86400 <
  funding_rate_diff_stop_loss\<close> holds, where \<open>normalized(venue)\<close> is the venue's current
  funding rate for the token's market divided by the venue's funding-payment interval
  (\<open>spec_normalized\<close>) and side BUY is long on \<open>connector_1\<close>, short on \<open>connector_2\<close>;
  otherwise it issues nothing for that arbitrage and leaves its history as it was.
\<close>

theorem stop_actions_proposal_exits:
  assumes "distinct (map fst (active_funding_arbitrages st))"
    and "\<forall>(token, info)\<in>set (active_funding_arbitrages st).
            connector_1 info \<in> set (connectors env)
          \<and> connector_2 info \<in> set (connectors env)
          \<and> token \<in> set (map fst (stopped_funding_arbitrages st))"
  shows "\<exists>st'. stop_actions_proposal env config st =
             Inr (concat (map (\<lambda>(token, info).
                     if spec_exit env config token info then stops_of env info else [])
                   (active_funding_arbitrages st)), st')
           \<and> (\<forall>(token, info)\<in>set (active_funding_arbitrages st).
                 map_of (stopped_funding_arbitrages st') token =
                   (if spec_exit env config token info
                    then map_option (\<lambda>old. old @ [info])
                           (map_of (stopped_funding_arbitrages st) token)
                    else map_of (stopped_funding_arbitrages st) token))"
proof -
  obtain stopped' where
    run: "for_each (stop_actions_step env config) (active_funding_arbitrages st)
            ([], stopped_funding_arbitrages st) =
          Inr ([] @ concat (map (\<lambda>(token, info).
                     if spec_exit env config token info then stops_of env info else [])
                   (active_funding_arbitrages st)), stopped')"
    and upd: "\<forall>(token, info)\<in>set (active_funding_arbitrages st).
                 map_of stopped' token =
                   (if spec_exit env config token info
                    then map_option (\<lambda>old. old @ [info])
                           (map_of (stopped_funding_arbitrages st) token)
                    else map_of (stopped_funding_arbitrages st) token)"
    using stop_actions_loop [OF assms, of config "[]"] by blast
  have "stop_actions_proposal env config st =
          Inr (concat (map (\<lambda>(token, info).
                     if spec_exit env config token info then stops_of env info else [])
                   (active_funding_arbitrages st)),
               st\<lparr>stopped_funding_arbitrages := stopped'\<rparr>)"
    using run by (simp add: stop_actions_proposal_def)
  moreover have "\<forall>(token, info)\<in>set (active_funding_arbitrages st).
                 map_of (stopped_funding_arbitrages (st\<lparr>stopped_funding_arbitrages := stopped'\<rparr>)) token =
                   (if spec_exit env config token info
                    then map_option (\<lambda>old. old @ [info])
                           (map_of (stopped_funding_arbitrages st) token)
                    else map_of (stopped_funding_arbitrages st) token)"
    using upd by simp
  ultimately show ?thesis by blast
qed

text \<open>
  Four arbitrages with \<^verbatim>\<open>position_size_quote = 100\<close>,
  \<^verbatim>\<open>profitability_to_take_profit = 0.01\<close> and \<^verbatim>\<open>funding_rate_diff_stop_loss = -0.001\<close>.
  WIF: the combined PnL 1.01 takes profit. FET (long on the 8 h venue at rate 0.0008,
  short on the 1 h venue at rate 0.0002): the PnL 0.99 does not take profit, and the
  normalized difference is \<open>(0.0002 / 3600 - 0.0008 / 28800) * 86400 = 0.0024\<close>, so
  nothing is stopped, although the raw rate of the short venue is below that of the long
  venue. SOL: the normalized difference is \<open>(1 / 24000 / 3600 - 0.001 / 28800) * 86400 =
  -0.002 < -0.001\<close>, so the stop loss fires. DOGE has the rates of FET and side SELL: it
  is short on the 8 h venue, the difference is \<open>-0.0024\<close> and the stop loss fires,
  although the raw rate of the short venue is above that of the long venue.
\<close>

theorem stop_actions_proposal_exits_witness:
  "spec_take_profit four_markets (example_config (1 / 1000)) (wif_arbitrage wif_payments)
   \<and> \<not> spec_stop_loss four_markets (example_config (1 / 1000)) ''WIF''
         (wif_arbitrage wif_payments)
   \<and> \<not> spec_take_profit four_markets (example_config (1 / 1000)) (fet_arbitrage fet_payments)
   \<and> spec_normalized four_markets ''FET'' ''binance_perpetual'' = (8 / 10000) / 28800
   \<and> spec_normalized four_markets ''FET'' ''hyperliquid_perpetual'' = (2 / 10000) / 3600
   \<and> get_normalized_funding_rate_in_seconds (get_funding_info_by_token four_markets ''FET'')
         ''binance_perpetual'' = Inr ((8 / 10000) / 28800)
   \<and> get_normalized_funding_rate_in_seconds (get_funding_info_by_token four_markets ''FET'')
         ''hyperliquid_perpetual'' = Inr ((2 / 10000) / 3600)
   \<and> \<not> spec_stop_loss four_markets (example_config (1 / 1000)) ''FET''
         (fet_arbitrage fet_payments)
   \<and> \<not> spec_take_profit four_markets (example_config (1 / 1000)) sol_arbitrage
   \<and> (spec_normalized four_markets ''SOL'' ''hyperliquid_perpetual''
        - spec_normalized four_markets ''SOL'' ''binance_perpetual'') * 86400 = - (2 / 1000)
   \<and> spec_stop_loss four_markets (example_config (1 / 1000)) ''SOL'' sol_arbitrage
   \<and> \<not> spec_take_profit four_markets (example_config (1 / 1000)) doge_arbitrage
   \<and> (spec_normalized four_markets ''DOGE'' ''binance_perpetual''
        - spec_normalized four_markets ''DOGE'' ''hyperliquid_perpetual'') * 86400
       = - (24 / 10000)
   \<and> spec_stop_loss four_markets (example_config (1 / 1000)) ''DOGE'' doge_arbitrage
   \<and> stop_actions_proposal four_markets (example_config (1 / 1000)) four_open
       = Inr ([StopExecutorAction ''binance_perpetual:WIF-USDT'',
               StopExecutorAction ''hyperliquid_perpetual:WIF-USD'',
               StopExecutorAction ''binance_perpetual:SOL-USDT'',
               StopExecutorAction ''hyperliquid_perpetual:SOL-USD'',
               StopExecutorAction ''binance_perpetual:DOGE-USDT'',
               StopExecutorAction ''hyperliquid_perpetual:DOGE-USD''], four_closed)"
proof -
  have d: "distinct (map fst (active_funding_arbitrages four_open))"
    by (simp add: four_open_def)
  have k: "\<forall>(token, info)\<in>set (active_funding_arbitrages four_open).
            connector_1 info \<in> set (connectors four_markets)
          \<and> connector_2 info \<in> set (connectors four_markets)
          \<and> token \<in> set (map fst (stopped_funding_arbitrages four_open))"
    by (simp add: four_open_def four_markets_def wif_arbitrage_def fet_arbitrage_def
        sol_arbitrage_def doge_arbitrage_def)
  have wif: "spec_take_profit four_markets (example_config (1 / 1000))
      (wif_arbitrage wif_payments)"
    "\<not> spec_stop_loss four_markets (example_config (1 / 1000)) ''WIF''
         (wif_arbitrage wif_payments)"
    by code_simp+
  have fet: "\<not> spec_take_profit four_markets (example_config (1 / 1000))
      (fet_arbitrage fet_payments)"
    "\<not> spec_stop_loss four_markets (example_config (1 / 1000)) ''FET''
         (fet_arbitrage fet_payments)"
    by code_simp+
  have fet_rates: "spec_normalized four_markets ''FET'' ''binance_perpetual'' = (8 / 10000) / 28800"
    "spec_normalized four_markets ''FET'' ''hyperliquid_perpetual'' = (2 / 10000) / 3600"
    "get_normalized_funding_rate_in_seconds (get_funding_info_by_token four_markets ''FET'')
         ''binance_perpetual'' = Inr ((8 / 10000) / 28800)"
    "get_normalized_funding_rate_in_seconds (get_funding_info_by_token four_markets ''FET'')
         ''hyperliquid_perpetual'' = Inr ((2 / 10000) / 3600)"
    by code_simp+
  have sol: "\<not> spec_take_profit four_markets (example_config (1 / 1000)) sol_arbitrage"
    "(spec_normalized four_markets ''SOL'' ''hyperliquid_perpetual''
        - spec_normalized four_markets ''SOL'' ''binance_perpetual'') * 86400 = - (2 / 1000)"
    "spec_stop_loss four_markets (example_config (1 / 1000)) ''SOL'' sol_arbitrage"
    by code_simp+
  have doge: "\<not> spec_take_profit four_markets (example_config (1 / 1000)) doge_arbitrage"
    "(spec_normalized four_markets ''DOGE'' ''binance_perpetual''
        - spec_normalized four_markets ''DOGE'' ''hyperliquid_perpetual'') * 86400
       = - (24 / 10000)"
    "spec_stop_loss four_markets (example_config (1 / 1000)) ''DOGE'' doge_arbitrage"
    by code_simp+
  have stops: "stops_of four_markets (wif_arbitrage wif_payments) =
      [StopExecutorAction ''binance_perpetual:WIF-USDT'',
       StopExecutorAction ''hyperliquid_perpetual:WIF-USD'']"
    "stops_of four_markets sol_arbitrage =
      [StopExecutorAction ''binance_perpetual:SOL-USDT'',
       StopExecutorAction ''hyperliquid_perpetual:SOL-USD'']"
    "stops_of four_markets doge_arbitrage =
      [StopExecutorAction ''binance_perpetual:DOGE-USDT'',
       StopExecutorAction ''hyperliquid_perpetual:DOGE-USD'']"
    by code_simp+
  obtain st' where run: "stop_actions_proposal four_markets (example_config (1 / 1000)) four_open =
      Inr (concat (map (\<lambda>(token, info).
              if spec_exit four_markets (example_config (1 / 1000)) token info
              then stops_of four_markets info else [])
            (active_funding_arbitrages four_open)), st')"
    and hist: "\<forall>(token, info)\<in>set (active_funding_arbitrages four_open).
                 map_of (stopped_funding_arbitrages st') token =
                   (if spec_exit four_markets (example_config (1 / 1000)) token info
                    then map_option (\<lambda>old. old @ [info])
                           (map_of (stopped_funding_arbitrages four_open) token)
                    else map_of (stopped_funding_arbitrages four_open) token)"
    using stop_actions_proposal_exits [OF d k] by blast
  have acts: "concat (map (\<lambda>(token, info).
              if spec_exit four_markets (example_config (1 / 1000)) token info
              then stops_of four_markets info else [])
            (active_funding_arbitrages four_open)) =
      [StopExecutorAction ''binance_perpetual:WIF-USDT'',
       StopExecutorAction ''hyperliquid_perpetual:WIF-USD'',
       StopExecutorAction ''binance_perpetual:SOL-USDT'',
       StopExecutorAction ''hyperliquid_perpetual:SOL-USD'',
       StopExecutorAction ''binance_perpetual:DOGE-USDT'',
       StopExecutorAction ''hyperliquid_perpetual:DOGE-USD'']"
    using wif fet sol(1,3) doge(1,3) stops by (simp add: four_open_def spec_exit_def)
  have "stop_actions_proposal four_markets (example_config (1 / 1000)) four_open
       = Inr ([StopExecutorAction ''binance_perpetual:WIF-USDT'',
               StopExecutorAction ''hyperliquid_perpetual:WIF-USD'',
               StopExecutorAction ''binance_perpetual:SOL-USDT'',
               StopExecutorAction ''hyperliquid_perpetual:SOL-USD'',
               StopExecutorAction ''binance_perpetual:DOGE-USDT'',
               StopExecutorAction ''hyperliquid_perpetual:DOGE-USD''], four_closed)"
    by code_simp
  with run acts wif fet fet_rates sol doge show ?thesis by simp
qed

lemma stop_actions_proposal_keeps_active:
  "stop_actions_proposal env config st = Inr (actions, st')
     \<Longrightarrow> active_funding_arbitrages st' = active_funding_arbitrages st"
  by (auto simp: stop_actions_proposal_def split: sum.splits prod.splits)

lemma create_actions_loop_skips_active:
  "set ts \<subseteq> set (map fst (active_funding_arbitrages st))
     \<Longrightarrow> create_actions_loop env config ts st = Inr ([], st)"
  by (induction ts) auto

text \<open>
  Claim C8 (the code departs from it). After the take-profit exit of WIF is issued, WIF is
  still a key of \<^verbatim>\<open>active_funding_arbitrages\<close>. On the next tick
  \<^verbatim>\<open>stop_actions_proposal\<close> stops the same executors and records the arbitrage once more,
  and \<^verbatim>\<open>create_actions_proposal\<close> passes WIF by although its entry conditions hold: it
  opens WIF only from a state in which the key has been removed, which no code of the
  script does.
\<close>

theorem stopped_token_stays_active:
  "stop_actions_proposal (two_venues (1 / 10000) open_executors) (example_config (1 / 1000))
       open_state
     = Inr ([StopExecutorAction ''binance_perpetual:WIF-USDT'',
             StopExecutorAction ''hyperliquid_perpetual:WIF-USD''], closed_state)
   \<and> map fst (active_funding_arbitrages closed_state) = [''WIF'', ''FET'']
   \<and> create_actions_proposal (two_venues (1 / 10000) open_executors) (example_config (1 / 1000))
         closed_state
       = Inr ([], closed_state)
   \<and> stop_actions_proposal (two_venues (1 / 10000) open_executors) (example_config (1 / 1000))
         closed_state
       = Inr ([StopExecutorAction ''binance_perpetual:WIF-USDT'',
               StopExecutorAction ''hyperliquid_perpetual:WIF-USD''],
              closed_state\<lparr>stopped_funding_arbitrages :=
                [(''WIF'', [wif_arbitrage wif_payments, wif_arbitrage wif_payments]),
                 (''FET'', [])]\<rparr>)
   \<and> create_actions_proposal (two_venues (1 / 10000) open_executors) (example_config (1 / 1000))
         (closed_state\<lparr>active_funding_arbitrages := [(''FET'', fet_arbitrage fet_payments)]\<rparr>)
       = Inr ([CreateExecutorAction wif_config_1, CreateExecutorAction wif_config_2],
              closed_state\<lparr>active_funding_arbitrages :=
                [(''FET'', fet_arbitrage fet_payments), (''WIF'', wif_arbitrage [])]\<rparr>)"
  by code_simp

section \<open>Liquidity mining: fill handling\<close>

text \<open>
  Claim C10. A confirmed own-trade fill on market \<open>m\<close> (the tracker knows the order, and
  both budget maps have an entry for \<open>m\<close>) returns normally. A BUY of amount \<open>a\<close> at price
  \<open>p\<close> lowers \<open>buy_budgets[m]\<close> by exactly \<open>a * p\<close> and raises \<open>sell_budgets[m]\<close> by exactly
  \<open>a\<close>; a SELL lowers \<open>sell_budgets[m]\<close> by \<open>a\<close> and raises \<open>buy_budgets[m]\<close> by \<open>a * p\<close>;
  the budgets of every other market are unchanged.
\<close>

theorem did_fill_order_updates_budgets:
  assumes "tracker (fe_order_id ev) = Some m"
    and "buy_budgets st m = Some b"
    and "sell_budgets st m = Some s"
  shows "\<exists>st'. did_fill_order tracker ev st = Inr st'
      \<and> (fe_trade_type ev = BUY \<longrightarrow>
            buy_budgets st' m = Some (b - fe_amount ev * fe_price ev)
          \<and> sell_budgets st' m = Some (s + fe_amount ev))
      \<and> (fe_trade_type ev = SELL \<longrightarrow>
            sell_budgets st' m = Some (s - fe_amount ev)
          \<and> buy_budgets st' m = Some (b + fe_amount ev * fe_price ev))
      \<and> (\<forall>m'. m' \<noteq> m \<longrightarrow>
            buy_budgets st' m' = buy_budgets st m' \<and> sell_budgets st' m' = sell_budgets st m')"
  using assms by (simp add: did_fill_order_def sub_at_def add_at_def)

theorem did_fill_order_updates_budgets_witness:
  "did_fill_order eth_tracker eth_fill eth_budgets =
     Inr \<lparr>buy_budgets = [''ETH-USDT'' \<mapsto> 1000 - 100, ''BTC-USDT'' \<mapsto> 700],
          sell_budgets = [''ETH-USDT'' \<mapsto> 3 + 2, ''BTC-USDT'' \<mapsto> 1 / 10]\<rparr>"
proof -
  have tr: "eth_tracker (fe_order_id eth_fill) = Some ''ETH-USDT''"
    by (simp add: eth_tracker_def eth_fill_def)
  have bb: "buy_budgets eth_budgets ''ETH-USDT'' = Some 1000"
    by (simp add: eth_budgets_def)
  have sb: "sell_budgets eth_budgets ''ETH-USDT'' = Some 3"
    by (simp add: eth_budgets_def)
  obtain st' where run: "did_fill_order eth_tracker eth_fill eth_budgets = Inr st'"
    and buy: "buy_budgets st' ''ETH-USDT'' = Some (1000 - fe_amount eth_fill * fe_price eth_fill)"
    and sell: "sell_budgets st' ''ETH-USDT'' = Some (3 + fe_amount eth_fill)"
    and others: "\<And>m'. m' \<noteq> ''ETH-USDT'' \<Longrightarrow>
        buy_budgets st' m' = buy_budgets eth_budgets m' \<and> sell_budgets st' m' = sell_budgets eth_budgets m'"
    using did_fill_order_updates_budgets
      [where tracker = eth_tracker and ev = eth_fill and st = eth_budgets, OF tr bb sb]
    by (auto simp: eth_fill_def)
  have "buy_budgets st' = [''ETH-USDT'' \<mapsto> 1000 - 100, ''BTC-USDT'' \<mapsto> 700]"
  proof
    fix k show "buy_budgets st' k = [''ETH-USDT'' \<mapsto> 1000 - 100, ''BTC-USDT'' \<mapsto> 700] k"
      using buy others [of k] by (cases "k = ''ETH-USDT''") (simp_all add: eth_fill_def eth_budgets_def)
  qed
  moreover have "sell_budgets st' = [''ETH-USDT'' \<mapsto> 3 + 2, ''BTC-USDT'' \<mapsto> 1 / 10]"
  proof
    fix k show "sell_budgets st' k = [''ETH-USDT'' \<mapsto> 3 + 2, ''BTC-USDT'' \<mapsto> 1 / 10] k"
      using sell others [of k] by (cases "k = ''ETH-USDT''") (simp_all add: eth_fill_def eth_budgets_def)
  qed
  ultimately show ?thesis using run by simp
qed

section \<open>Liquidity mining: refresh and tolerance\<close>

lemma out_of_tolerance_spec:
  assumes "\<forall>order\<in>set cur. o_price order \<noteq> 0"
  shows "out_of_tolerance tol cur pp =
           Inr (case cur of [] \<Rightarrow> False | first # others \<Rightarrow> \<bar>pp - o_price first\<bar> / o_price first > tol)"
  using assms by (cases cur) (auto simp: out_of_tolerance_def dec_div_def)

lemma is_within_tolerance_spec:
  assumes "\<forall>order\<in>set (co_active_orders ctx). o_price order \<noteq> 0"
  shows "is_within_tolerance (co_order_refresh_tolerance_pct ctx) (live_orders ctx (market p)) p
           = Inr (spec_within_tolerance ctx p)"
proof -
  have b: "\<forall>order\<in>set (filter is_buy (live_orders ctx (market p))). o_price order \<noteq> 0"
    and s: "\<forall>order\<in>set (filter (\<lambda>order. \<not> is_buy order) (live_orders ctx (market p))). o_price order \<noteq> 0"
    using assms by (auto simp: live_orders_def)
  show ?thesis
    unfolding is_within_tolerance_def Let_def
      out_of_tolerance_spec [OF b] out_of_tolerance_spec [OF s]
    by (auto simp: spec_within_tolerance_def spec_side_within_def split: list.splits bool.splits)
qed


lemma cancel_orders_loop:
  assumes "market p \<in> set (co_markets ctx)" and "\<forall>order\<in>set cur. trading_pair order = market p"
  shows "for_each (cancel_one ctx p) cur st =
           Inr (if cur = [] then st
                else st\<lparr>cancelled := cancelled st @ map (\<lambda>order. (market p, client_order_id order)) cur,
                        refresh_times := (refresh_times st)(market p \<mapsto> co_current_timestamp ctx + 1 / 10)\<rparr>)"
  using assms
proof (induction cur arbitrary: st)
  case Nil
  then show ?case by simp
next
  case (Cons order cur)
  define st1 where "st1 = st\<lparr>cancelled := cancelled st @ [(market p, client_order_id order)],
     refresh_times := (refresh_times st)(market p \<mapsto> co_current_timestamp ctx + 1 / 10)\<rparr>"
  have step: "cancel_one ctx p order st = Inr st1"
    using Cons.prems by (simp add: cancel_one_def st1_def)
  have rest: "for_each (cancel_one ctx p) cur st1 =
           Inr (if cur = [] then st1
                else st1\<lparr>cancelled := cancelled st1 @ map (\<lambda>order. (market p, client_order_id order)) cur,
                        refresh_times := (refresh_times st1)(market p \<mapsto> co_current_timestamp ctx + 1 / 10)\<rparr>)"
    using Cons.IH [of st1] Cons.prems by simp
  show ?case
  proof (cases "cur = []")
    case True
    then show ?thesis using step rest by (simp add: st1_def)
  next
    case False
    then show ?thesis using step rest by (simp add: st1_def)
  qed
qed

lemma to_cancel_spec:
  assumes "\<forall>order\<in>set (co_active_orders ctx). o_price order \<noteq> 0"
    and "refresh_times st (market p) = Some t"
  shows "to_cancel ctx (live_orders ctx (market p)) p st = Inr (spec_cancel ctx st p)"
proof -
  have empty: "spec_within_tolerance ctx p" if "live_orders ctx (market p) = []"
    using that by (simp add: spec_within_tolerance_def spec_side_within_def)
  have ex: "live_orders ctx (market p) \<noteq> []"
    if "list_ex P (live_orders ctx (market p))" for P
    using that by auto
  show ?thesis
    using assms(2) is_within_tolerance_spec [OF assms(1), of p] empty
    by (auto simp: to_cancel_def spec_cancel_def dest: ex)
qed

lemma spec_cancel_live:
  "spec_cancel ctx st p \<Longrightarrow> live_orders ctx (market p) \<noteq> []"
  by (auto simp: spec_cancel_def spec_within_tolerance_def spec_side_within_def split: option.splits)

lemma cancel_step_spec:
  assumes "\<forall>order\<in>set (co_active_orders ctx). o_price order \<noteq> 0"
    and "refresh_times st (market p) = Some t"
    and "market p \<in> set (co_markets ctx)"
  shows "cancel_step ctx p st =
           Inr (if spec_cancel ctx st p
                then st\<lparr>cancelled := cancelled st
                          @ map (\<lambda>order. (market p, client_order_id order)) (live_orders ctx (market p)),
                        refresh_times :=
                          (refresh_times st)(market p \<mapsto> co_current_timestamp ctx + 1 / 10)\<rparr>
                else st)"
proof -
  have own: "\<forall>order\<in>set (live_orders ctx (market p)). trading_pair order = market p"
    by (simp add: live_orders_def)
  show ?thesis
    using to_cancel_spec [OF assms(1,2)] cancel_orders_loop [OF assms(3) own, of st]
      spec_cancel_live [of ctx st p]
    by (simp add: cancel_step_def live_orders_def [symmetric] Let_def)
qed


lemma spec_cancel_cong:
  "refresh_times st1 (market p) = refresh_times st (market p)
     \<Longrightarrow> spec_cancel ctx st1 p = spec_cancel ctx st p"
  by (simp add: spec_cancel_def)

lemma cancel_proposals_loop:
  assumes "distinct (map market proposals)"
    and "\<forall>order\<in>set (co_active_orders ctx). o_price order \<noteq> 0"
    and "\<forall>p\<in>set proposals. market p \<in> set (co_markets ctx) \<and> market p \<in> dom (refresh_times st)"
  shows "\<exists>st'. for_each (cancel_step ctx) proposals st = Inr st'
      \<and> cancelled st' = cancelled st @ concat (map (\<lambda>p.
            if spec_cancel ctx st p
            then map (\<lambda>order. (market p, client_order_id order)) (live_orders ctx (market p))
            else []) proposals)
      \<and> (\<forall>p\<in>set proposals. refresh_times st' (market p) =
            (if spec_cancel ctx st p then Some (co_current_timestamp ctx + 1 / 10)
             else refresh_times st (market p)))
      \<and> (\<forall>m. m \<notin> set (map market proposals) \<longrightarrow> refresh_times st' m = refresh_times st m)"
  using assms
proof (induction proposals arbitrary: st)
  case Nil
  then show ?case by simp
next
  case (Cons p ps)
  from Cons.prems obtain t where t: "refresh_times st (market p) = Some t" by auto
  have mk: "market p \<in> set (co_markets ctx)" using Cons.prems by simp
  define st1 where "st1 =
     (if spec_cancel ctx st p
      then st\<lparr>cancelled := cancelled st
                @ map (\<lambda>order. (market p, client_order_id order)) (live_orders ctx (market p)),
              refresh_times := (refresh_times st)(market p \<mapsto> co_current_timestamp ctx + 1 / 10)\<rparr>
      else st)"
  have step: "cancel_step ctx p st = Inr st1"
    using cancel_step_spec [OF Cons.prems(2) t mk] by (simp add: st1_def)
  have other: "refresh_times st1 m = refresh_times st m" if "m \<noteq> market p" for m
    using that by (simp add: st1_def)
  have own: "refresh_times st1 (market p) =
      (if spec_cancel ctx st p then Some (co_current_timestamp ctx + 1 / 10)
       else refresh_times st (market p))"
    by (simp add: st1_def)
  have c1: "cancelled st1 = cancelled st @
      (if spec_cancel ctx st p
       then map (\<lambda>order. (market p, client_order_id order)) (live_orders ctx (market p))
       else [])"
    by (simp add: st1_def)
  have fresh: "market p \<notin> set (map market ps)" and d: "distinct (map market ps)"
    using Cons.prems(1) by simp_all
  have apart: "market q \<noteq> market p" if "q \<in> set ps" for q
    using that fresh by (metis image_eqI set_map)
  have pre: "\<forall>q\<in>set ps. market q \<in> set (co_markets ctx) \<and> market q \<in> dom (refresh_times st1)"
    using Cons.prems(3) other apart by (auto simp: dom_def)
  from Cons.IH [OF d Cons.prems(2) pre] obtain st' where
    run: "for_each (cancel_step ctx) ps st1 = Inr st'"
    and canc: "cancelled st' = cancelled st1 @ concat (map (\<lambda>p.
            if spec_cancel ctx st1 p
            then map (\<lambda>order. (market p, client_order_id order)) (live_orders ctx (market p))
            else []) ps)"
    and upd: "\<forall>q\<in>set ps. refresh_times st' (market q) =
            (if spec_cancel ctx st1 q then Some (co_current_timestamp ctx + 1 / 10)
             else refresh_times st1 (market q))"
    and frame: "\<forall>m. m \<notin> set (map market ps) \<longrightarrow> refresh_times st' m = refresh_times st1 m"
    by blast
  have same: "spec_cancel ctx st1 q = spec_cancel ctx st q" if "q \<in> set ps" for q
    using spec_cancel_cong [of st1 q st ctx] other [OF apart [OF that]] by simp
  have maps: "map (\<lambda>p.
            if spec_cancel ctx st1 p
            then map (\<lambda>order. (market p, client_order_id order)) (live_orders ctx (market p))
            else []) ps =
        map (\<lambda>p.
            if spec_cancel ctx st p
            then map (\<lambda>order. (market p, client_order_id order)) (live_orders ctx (market p))
            else []) ps"
    using same by (intro map_cong) auto
  have a: "for_each (cancel_step ctx) (p # ps) st = Inr st'"
    using step run by simp
  have b: "cancelled st' = cancelled st @ concat (map (\<lambda>p.
            if spec_cancel ctx st p
            then map (\<lambda>order. (market p, client_order_id order)) (live_orders ctx (market p))
            else []) (p # ps))"
    using canc c1 maps by simp
  have c: "refresh_times st' (market p) =
            (if spec_cancel ctx st p then Some (co_current_timestamp ctx + 1 / 10)
             else refresh_times st (market p))"
    using frame fresh own by simp
  have e: "\<forall>q\<in>set ps. refresh_times st' (market q) =
            (if spec_cancel ctx st q then Some (co_current_timestamp ctx + 1 / 10)
             else refresh_times st (market q))"
    using upd same other apart by simp
  have f: "\<forall>m. m \<notin> set (map market (p # ps)) \<longrightarrow> refresh_times st' m = refresh_times st m"
    using frame other by simp
  from a b c e f show ?case by auto
qed

text \<open>
  Claim C4. Let no two proposals be for the same market, let every proposal's market be
  a key of \<^verbatim>\<open>_market_infos\<close> and of \<^verbatim>\<open>_refresh_times\<close>, and let no live order have price 0.
  Then \<^verbatim>\<open>cancel_active_orders\<close> returns, and for every proposal it cancels all live
  orders of the market exactly when (a) one of them is older than \<^verbatim>\<open>max_order_age\<close>, or
  (b) \<open>now \<ge> refresh_times[market]\<close> and the proposal is not within tolerance, where
  within tolerance means: for each side with a live order the proposed size is positive
  and \<open>|proposed_price - cur_price| / cur_price \<le> order_refresh_tolerance_pct\<close>. In that
  case \<open>refresh_times[market]\<close> becomes \<open>now + 0.1\<close>; otherwise it stays, as do the refresh
  times of all other markets.
\<close>

theorem cancel_active_orders_refresh:
  assumes "distinct (map market proposals)"
    and "\<forall>order\<in>set (co_active_orders ctx). o_price order \<noteq> 0"
    and "\<forall>p\<in>set proposals. market p \<in> set (co_markets ctx) \<and> market p \<in> dom (refresh_times st)"
  shows "\<exists>st'. cancel_active_orders ctx proposals st = Inr st'
      \<and> cancelled st' = cancelled st @ concat (map (\<lambda>p.
            if spec_cancel ctx st p
            then map (\<lambda>order. (market p, client_order_id order)) (live_orders ctx (market p))
            else []) proposals)
      \<and> (\<forall>p\<in>set proposals. refresh_times st' (market p) =
            (if spec_cancel ctx st p then Some (co_current_timestamp ctx + 1 / 10)
             else refresh_times st (market p)))
      \<and> (\<forall>m. m \<notin> set (map market proposals) \<longrightarrow> refresh_times st' m = refresh_times st m)"
  unfolding cancel_active_orders_def using cancel_proposals_loop [OF assms] .

text \<open>
  The example book: both proposals are within tolerance; the orders of \<^verbatim>\<open>ETH-USDT\<close> are
  older than \<^verbatim>\<open>max_order_age\<close> and are cancelled, with the refresh time set to
  \<open>5000 + 0.1\<close>; those of \<^verbatim>\<open>BTC-USDT\<close> stay.
\<close>

theorem cancel_active_orders_refresh_witness:
  "spec_within_tolerance example_context (example_proposals ! 0)
   \<and> spec_within_tolerance example_context (example_proposals ! 1)
   \<and> spec_cancel example_context example_refresh (example_proposals ! 0)
   \<and> \<not> spec_cancel example_context example_refresh (example_proposals ! 1)
   \<and> map_sum id (\<lambda>st'. (cancelled st', refresh_times st' ''ETH-USDT'', refresh_times st' ''BTC-USDT''))
         (cancel_active_orders example_context example_proposals example_refresh)
       = Inr ([(''ETH-USDT'', ''eth-bid''), (''ETH-USDT'', ''eth-ask'')],
              Some (5000 + 1 / 10), Some 4000)"
proof -
  have d: "distinct (map market example_proposals)"
    by (simp add: example_proposals_def)
  have pr: "\<forall>order\<in>set (co_active_orders example_context). o_price order \<noteq> 0"
    by (simp add: example_context_def example_orders_def)
  have k: "\<forall>p\<in>set example_proposals. market p \<in> set (co_markets example_context)
             \<and> market p \<in> dom (refresh_times example_refresh)"
    by (simp add: example_proposals_def example_context_def example_refresh_def)
  have w0: "spec_within_tolerance example_context (example_proposals ! 0)" by code_simp
  have w1: "spec_within_tolerance example_context (example_proposals ! 1)" by code_simp
  have s0: "spec_cancel example_context example_refresh (example_proposals ! 0)" by code_simp
  have s1: "\<not> spec_cancel example_context example_refresh (example_proposals ! 1)" by code_simp
  obtain st' where run: "cancel_active_orders example_context example_proposals example_refresh = Inr st'"
    using cancel_active_orders_refresh [OF d pr k] by blast
  have "map_sum id (\<lambda>st'. (cancelled st', refresh_times st' ''ETH-USDT'', refresh_times st' ''BTC-USDT''))
         (cancel_active_orders example_context example_proposals example_refresh)
       = Inr ([(''ETH-USDT'', ''eth-bid''), (''ETH-USDT'', ''eth-ask'')],
              Some (5000 + 1 / 10), Some 4000)"
    by code_simp
  with run w0 w1 s0 s1 show ?thesis by simp
qed

section \<open>Liquidity mining: budget conservation\<close>













section \<open>Liquidity mining: dynamic spreads without data\<close>

lemma dynamic_loop_without_data:
  assumes "\<And>m mid. (m, mid) \<in> set items \<Longrightarrow> feed_call (pc_exchange_name ctx) m = Inr None"
  shows "for_each (dynamic_step feed_call ctx) items (proposals, warnings)
           = Inr (proposals, warnings @ map fst items)"
  using assms
proof (induction items arbitrary: warnings)
  case Nil
  then show ?case by simp
next
  case (Cons item items)
  obtain m mid where item: "item = (m, mid)" by (cases item)
  have "feed_call (pc_exchange_name ctx) m = Inr None"
    using Cons.prems [of m mid] by (simp add: item)
  then have step: "dynamic_step feed_call ctx item (proposals, warnings)
                     = Inr (proposals, warnings @ [m])"
    by (simp add: dynamic_step_def item)
  have "for_each (dynamic_step feed_call ctx) items (proposals, warnings @ [m])
          = Inr (proposals, (warnings @ [m]) @ map fst items)"
  proof (rule Cons.IH)
    fix m' mid' assume "(m', mid') \<in> set items"
    then have "(m', mid') \<in> set (item # items)" by simp
    then show "feed_call (pc_exchange_name ctx) m' = Inr None" by (rule Cons.prems)
  qed
  with step show ?case by (simp add: item)
qed

lemma dynamic_without_data_no_proposals:
  assumes "\<And>m mid. (m, mid) \<in> set (pc_market_infos ctx)
             \<Longrightarrow> feed_call (pc_exchange_name ctx) m = Inr None"
  shows "create_base_proposals_dynamic feed_call ctx = Inr ([], map fst (pc_market_infos ctx))"
  unfolding create_base_proposals_dynamic_def
  using dynamic_loop_without_data [of "pc_market_infos ctx" feed_call ctx "[]" "[]"] assms
  by simp

text \<open>
  Claim C2 (the code departs from it). \<^verbatim>\<open>dynamic_spread = true\<close> on \<^verbatim>\<open>binance\<close> with the
  market \<^verbatim>\<open>DOGE-USDT\<close>, which the feed has no market id for. With the feed called on an
  instance, \<^verbatim>\<open>get_spread\<close> returns \<^verbatim>\<open>None\<close> and \<^verbatim>\<open>create_base_proposals\<close> logs the warning
  and returns no proposal for the market. With the call as the strategy writes it, the
  call itself raises \<^verbatim>\<open>TypeError\<close>. The static proposal the claim expects is what the
  same settings give with \<^verbatim>\<open>dynamic_spread = false\<close>.
\<close>

theorem dynamic_spread_without_data_gives_no_proposal:
  "get_spread answering_feed ''binance'' ''DOGE-USDT'' = None
   \<and> create_base_proposals (feed_call_on_instance answering_feed) (doge_context True)
       = Inr ([], [''DOGE-USDT''])
   \<and> create_base_proposals feed_call_as_written (doge_context True) = Inl TypeError
   \<and> create_base_proposals feed_call_as_written (doge_context False)
       = Inr ([doge_static_proposal], [])"
  by code_simp

section \<open>Liquidity mining: the volatility estimate\<close>

lemma window_fits:
  fixes n vi k :: nat
  assumes "k < n div vi"
  shows "(k + 1) * vi \<le> n"
proof -
  have "Suc k \<le> n div vi" using assms by simp
  then have "Suc k * vi \<le> (n div vi) * vi" by (rule mult_le_mono1)
  also have "\<dots> \<le> n" by simp
  finally show ?thesis by simp
qed

lemma full_window_slice:
  fixes vi k :: nat
  assumes "k < length xs div vi"
  shows "py_slice xs (int (length xs) - 1 - int k * int vi - int vi + 1)
           (int (length xs) - 1 - int k * int vi + 1)
         = take vi (drop (length xs - (k + 1) * vi) xs)"
proof -
  let ?n = "length xs"
  have fit: "(k + 1) * vi \<le> ?n" using assms by (rule window_fits)
  have pos: "0 < vi" using assms by (cases vi) simp_all
  have start: "int ?n - 1 - int k * int vi - int vi + 1 = int (?n - (k + 1) * vi)"
    using fit by (simp add: of_nat_diff algebra_simps)
  have stop: "int ?n - 1 - int k * int vi + 1 = int (?n - k * vi)"
    using fit by (simp add: of_nat_diff algebra_simps)
  have len: "?n - k * vi - (?n - (k + 1) * vi) = vi"
    using fit by (simp add: algebra_simps)
  have le: "?n - (k + 1) * vi \<le> ?n" "?n - k * vi \<le> ?n" by simp_all
  show ?thesis
    unfolding start stop py_slice_def Let_def
    using len le by (simp add: min_def nat_diff_distrib' flip: of_nat_diff)
qed


lemma length_spec_windows:
  "length (spec_windows vi avp xs) = min avp (length xs div vi)"
  by (simp add: spec_windows_def)

lemma nth_spec_windows:
  "k < min avp (length xs div vi)
     \<Longrightarrow> spec_windows vi avp xs ! k = take vi (drop (length xs - (k + 1) * vi) xs)"
  by (simp add: spec_windows_def)

lemma loop_ends_after_windows:
  fixes vi avp :: nat
  assumes vi: "2 \<le> vi" and len: "length xs \<le> 1 \<or> vi \<le> length xs"
  defines "q \<equiv> min avp (length xs div vi)"
  defines "i \<equiv> int (length xs) - 1 - int q * int vi"
  shows "\<not> i > max (int (length xs) - 1 - int vi * int avp) 0
         \<or> py_slice xs (i - int vi + 1) (i + 1) = []"
proof (cases "avp \<le> length xs div vi")
  case True
  then have "q = avp" by (simp add: q_def)
  then have "i = int (length xs) - 1 - int vi * int avp" by (simp add: i_def mult.commute)
  then show ?thesis by simp
next
  case False
  then have q: "q = length xs div vi" by (simp add: q_def)
  let ?n = "length xs"
  have "int ?n = int (?n div vi) * int vi + int (?n mod vi)"
    by (metis div_mult_mod_eq of_nat_add of_nat_mult)
  then have i: "i = int (?n mod vi) - 1" by (simp add: i_def q)
  show ?thesis
  proof (cases "?n mod vi \<le> 1")
    case True
    then have "i \<le> 0" using i by simp
    then show ?thesis by simp
  next
    case big: False
    then have "2 \<le> ?n" using mod_less_eq_dividend [of ?n vi] by linarith
    with len have n: "vi \<le> ?n" by simp
    have m: "?n mod vi < vi" using vi by simp
    have "py_slice xs (i - int vi + 1) (i + 1) = []"
      unfolding py_slice_def Let_def i using n m big by (simp add: min_def max_def)
    then show ?thesis by simp
  qed
qed

lemma atr_loop_windows:
  fixes vi avp :: nat
  assumes vi: "2 \<le> vi" and len: "length xs \<le> 1 \<or> vi \<le> length xs"
    and k: "k \<le> min avp (length xs div vi)"
  shows "atr_loop xs (int vi) (int vi * - 1)
           (max (int (length xs) - 1 - int vi * int avp) 0)
           (int (length xs) - 1 - int k * int vi)
         = spec_ratios (drop k (spec_windows vi avp xs))"
  using k
proof (induction "min avp (length xs div vi) - k" arbitrary: k)
  case 0
  then have k: "k = min avp (length xs div vi)" by simp
  have rhs: "drop k (spec_windows vi avp xs) = []"
    by (simp add: k length_spec_windows)
  have "\<not> int (length xs) - 1 - int k * int vi > max (int (length xs) - 1 - int vi * int avp) 0
         \<or> py_slice xs (int (length xs) - 1 - int k * int vi - int vi + 1)
              (int (length xs) - 1 - int k * int vi + 1) = []"
    unfolding k using loop_ends_after_windows [OF vi len, of avp] by simp
  then have "atr_loop xs (int vi) (int vi * - 1)
           (max (int (length xs) - 1 - int vi * int avp) 0)
           (int (length xs) - 1 - int k * int vi) = Inr []"
    using vi by (subst atr_loop.simps) (auto simp: Let_def)
  then show ?case by (simp add: rhs)
next
  case (Suc d)
  let ?n = "length xs"
  let ?first = "max (int ?n - 1 - int vi * int avp) 0"
  let ?i = "int ?n - 1 - int k * int vi"
  let ?w = "take vi (drop (?n - (k + 1) * vi) xs)"
  from Suc.hyps(2) have kq: "k < min avp (?n div vi)" by linarith
  then have ka: "k < avp" and kd: "k < ?n div vi" by simp_all
  have fit: "(k + 1) * vi \<le> ?n" using kd by (rule window_fits)
  have "int ((k + 1) * vi) \<le> int ?n" using fit by (simp only: of_nat_le_iff)
  then have fit_int: "(int k + 1) * int vi \<le> int ?n" by (simp add: algebra_simps)
  have "int k * int vi < int avp * int vi"
    using ka vi by (intro mult_strict_right_mono) simp_all
  then have above: "?i > int ?n - 1 - int vi * int avp"
    by (simp add: mult.commute)
  have "int vi + int k * int vi \<le> int ?n" using fit_int by (simp add: algebra_simps)
  moreover have "2 \<le> int vi" using vi by simp
  ultimately have pos: "?i > 0" by linarith
  have cond: "?i > ?first" using above pos by simp
  have slice: "py_slice xs (?i - int vi + 1) (?i + 1) = ?w"
    by (rule full_window_slice [OF kd])
  have "length ?w = vi" using fit by simp
  then have ne: "?w \<noteq> []" using vi by auto
  have next_i: "?i + int vi * - 1 = int ?n - 1 - int (Suc k) * int vi"
    by (simp add: algebra_simps)
  have ih: "atr_loop xs (int vi) (int vi * - 1) ?first (int ?n - 1 - int (Suc k) * int vi)
              = spec_ratios (drop (Suc k) (spec_windows vi avp xs))"
    using Suc.hyps(1) [of "Suc k"] Suc.hyps(2) kq by simp
  have rhs: "drop k (spec_windows vi avp xs) = ?w # drop (Suc k) (spec_windows vi avp xs)"
    using kq nth_spec_windows [OF kq]
    by (metis Cons_nth_drop_Suc length_spec_windows)
  have "atr_loop xs (int vi) (int vi * - 1) ?first ?i =
          (case range_ratio ?w of
             Inl e \<Rightarrow> Inl e
           | Inr ratio \<Rightarrow>
               (case atr_loop xs (int vi) (int vi * - 1) ?first (?i + int vi * - 1) of
                  Inl e \<Rightarrow> Inl e
                | Inr atr \<Rightarrow> Inr (ratio # atr)))"
  proof -
    have g: "(int vi * - 1 < 0 \<and> ?i > ?first) \<or> (int vi * - 1 > 0 \<and> ?i < ?first)"
      using cond vi by simp
    show ?thesis
      by (subst atr_loop.simps) (simp only: g if_True Let_def slice ne if_False)
  qed
  then show ?case unfolding next_i ih rhs by simp
qed


lemma spec_ratios_defined:
  "list_all (\<lambda>w. Min (set w) \<noteq> 0) ws
     \<Longrightarrow> spec_ratios ws = Inr (map (\<lambda>w. (Max (set w) - Min (set w)) / Min (set w)) ws)"
  by (induction ws) (simp_all add: range_ratio_def dec_div_def)

lemma spec_ratios_raise:
  "\<not> list_all (\<lambda>w. Min (set w) \<noteq> 0) ws
     \<Longrightarrow> spec_ratios ws = Inl DivisionByZero \<or> spec_ratios ws = Inl InvalidOperation"
proof (induction ws)
  case Nil
  then show ?case by simp
next
  case (Cons w ws)
  show ?case
  proof (cases "Min (set w) = 0")
    case True
    then show ?thesis by (simp add: range_ratio_def dec_div_def)
  next
    case False
    with Cons.prems have "\<not> list_all (\<lambda>w. Min (set w) \<noteq> 0) ws" by simp
    from Cons.IH [OF this] False show ?thesis
      by (auto simp: range_ratio_def dec_div_def)
  qed
qed

lemma market_volatility_windows:
  fixes vi avp :: nat
  assumes "2 \<le> vi" and "length xs \<le> 1 \<or> vi \<le> length xs"
  shows "market_volatility (int vi) (int avp) xs =
           (case spec_ratios (spec_windows vi avp xs) of
              Inl e \<Rightarrow> Inl e
            | Inr atr \<Rightarrow>
                if atr \<noteq> [] then Inr (Some (sum_list atr / of_nat (length atr))) else Inr None)"
proof -
  have "atr_loop xs (int vi) (int vi * - 1)
           (max (int (length xs) - 1 - int vi * int avp) 0) (int (length xs) - 1)
         = spec_ratios (spec_windows vi avp xs)"
    using atr_loop_windows [OF assms, of 0 avp] by simp
  moreover have "int vi * - 1 \<noteq> 0" using assms(1) by simp
  ultimately show ?thesis
    unfolding market_volatility_def Let_def by (simp only: if_False)
qed

lemma update_volatility_loop:
  assumes "\<And>m xs. (m, xs) \<in> set items \<Longrightarrow> market_volatility vi avp xs = Inr (v m)"
  shows "for_each
       (\<lambda>(m, mid_prices) volatility.
          case market_volatility vi avp mid_prices of
            Inl e \<Rightarrow> Inl e
          | Inr None \<Rightarrow> Inr volatility
          | Inr (Some vol) \<Rightarrow> Inr (volatility(m \<mapsto> Some vol)))
       items vol0
     = Inr (\<lambda>m. case (if m \<in> set (map fst items) then v m else None) of
                   Some r \<Rightarrow> Some (Some r)
                 | None \<Rightarrow> vol0 m)"
  using assms
proof (induction items arbitrary: vol0)
  case Nil
  then show ?case by simp
next
  case (Cons item items)
  obtain m xs where item: "item = (m, xs)" by (cases item)
  have mv: "market_volatility vi avp xs = Inr (v m)"
    using Cons.prems [of m xs] by (simp add: item)
  define vol1 where "vol1 = (case v m of None \<Rightarrow> vol0 | Some r \<Rightarrow> vol0(m \<mapsto> Some r))"
  have rest: "for_each
       (\<lambda>(m, mid_prices) volatility.
          case market_volatility vi avp mid_prices of
            Inl e \<Rightarrow> Inl e
          | Inr None \<Rightarrow> Inr volatility
          | Inr (Some vol) \<Rightarrow> Inr (volatility(m \<mapsto> Some vol)))
       items vol1
     = Inr (\<lambda>m. case (if m \<in> set (map fst items) then v m else None) of
                   Some r \<Rightarrow> Some (Some r)
                 | None \<Rightarrow> vol1 m)"
    by (rule Cons.IH) (simp add: Cons.prems)
  have eq: "(\<lambda>m'. case (if m' \<in> set (map fst items) then v m' else None) of
                   Some r \<Rightarrow> Some (Some r)
                 | None \<Rightarrow> vol1 m')
        = (\<lambda>m'. case (if m' \<in> set (map fst (item # items)) then v m' else None) of
                   Some r \<Rightarrow> Some (Some r)
                 | None \<Rightarrow> vol0 m')"
    by (rule ext) (simp add: item vol1_def split: option.splits)
  show ?case
    using mv rest unfolding eq [symmetric]
    by (cases "v m") (simp_all add: item vol1_def)
qed

lemma update_volatility_markets:
  assumes "\<And>m xs. (m, xs) \<in> set items \<Longrightarrow> market_volatility vi avp xs = Inr (v m)"
  shows "update_volatility vi avp markets items
     = Inr (\<lambda>m. case (if m \<in> set (map fst items) then v m else None) of
                   Some r \<Rightarrow> Some (Some r)
                 | None \<Rightarrow> if m \<in> set markets then Some None else None)"
  unfolding update_volatility_def by (rule update_volatility_loop) (rule assms)


text \<open>
  Claim C1, as amended. Let \<open>volatility_interval \<ge> 2\<close>, and let the buffer hold at least
  \<open>volatility_interval\<close> samples or at most one. If no full window has the minimum 0, the
  volatility that \<^verbatim>\<open>update_volatility\<close> computes for the buffer is the arithmetic mean of
  \<open>(max - min) / min\<close> over the full windows of length \<open>volatility_interval\<close>, walking
  backward from the newest sample, at most \<open>avg_volatility_period\<close> of them, and NaN when
  there is no full window; a trailing window shorter than the interval contributes
  nothing. If a full window has the minimum 0, the computation raises the decimal
  division error (\<^verbatim>\<open>DivisionByZero\<close>, or \<^verbatim>\<open>InvalidOperation\<close> for \<open>0 / 0\<close>).
  \<^verbatim>\<open>update_volatility\<close> as a whole stores, for every market of \<^verbatim>\<open>_mid_prices\<close>, the value
  computed for its buffer, and keeps NaN for an active market whose value is NaN.
\<close>

theorem market_volatility_mean_range_ratio:
  fixes vi avp :: nat
  assumes "2 \<le> vi" and "length mid_prices \<le> 1 \<or> vi \<le> length mid_prices"
  shows "(if list_all (\<lambda>w. Min (set w) \<noteq> 0) (spec_windows vi avp mid_prices)
          then market_volatility (int vi) (int avp) mid_prices
                 = Inr (spec_volatility vi avp mid_prices)
          else market_volatility (int vi) (int avp) mid_prices = Inl DivisionByZero
             \<or> market_volatility (int vi) (int avp) mid_prices = Inl InvalidOperation)
       \<and> ((\<forall>m xs. (m, xs) \<in> set items \<longrightarrow>
               market_volatility (int vi) (int avp) xs = Inr (v m))
            \<longrightarrow> update_volatility (int vi) (int avp) markets items
                  = Inr (\<lambda>m. case (if m \<in> set (map fst items) then v m else None) of
                               Some r \<Rightarrow> Some (Some r)
                             | None \<Rightarrow> if m \<in> set markets then Some None else None))"
proof (rule conjI)
  show "if list_all (\<lambda>w. Min (set w) \<noteq> 0) (spec_windows vi avp mid_prices)
          then market_volatility (int vi) (int avp) mid_prices
                 = Inr (spec_volatility vi avp mid_prices)
          else market_volatility (int vi) (int avp) mid_prices = Inl DivisionByZero
             \<or> market_volatility (int vi) (int avp) mid_prices = Inl InvalidOperation"
  proof (cases "list_all (\<lambda>w. Min (set w) \<noteq> 0) (spec_windows vi avp mid_prices)")
    case True
    have "market_volatility (int vi) (int avp) mid_prices
            = Inr (spec_volatility vi avp mid_prices)"
      unfolding market_volatility_windows [OF assms] spec_ratios_defined [OF True]
      by (simp add: spec_volatility_def Let_def)
    with True show ?thesis by simp
  next
    case False
    from spec_ratios_raise [OF False]
    have "market_volatility (int vi) (int avp) mid_prices = Inl DivisionByZero
              \<or> market_volatility (int vi) (int avp) mid_prices = Inl InvalidOperation"
      unfolding market_volatility_windows [OF assms] by auto
    with False show ?thesis by simp
  qed
next
  show "(\<forall>m xs. (m, xs) \<in> set items \<longrightarrow>
               market_volatility (int vi) (int avp) xs = Inr (v m))
            \<longrightarrow> update_volatility (int vi) (int avp) markets items
                  = Inr (\<lambda>m. case (if m \<in> set (map fst items) then v m else None) of
                               Some r \<Rightarrow> Some (Some r)
                             | None \<Rightarrow> if m \<in> set markets then Some None else None)"
  proof
    assume a: "\<forall>m xs. (m, xs) \<in> set items \<longrightarrow>
               market_volatility (int vi) (int avp) xs = Inr (v m)"
    show "update_volatility (int vi) (int avp) markets items
                  = Inr (\<lambda>m. case (if m \<in> set (map fst items) then v m else None) of
                               Some r \<Rightarrow> Some (Some r)
                             | None \<Rightarrow> if m \<in> set markets then Some None else None)"
    proof (rule update_volatility_markets)
      fix m xs assume "(m, xs) \<in> set items"
      with a show "market_volatility (int vi) (int avp) xs = Inr (v m)" by blast
    qed
  qed
qed

text \<open>
  Seven samples and windows of three: the two full windows are \<open>[100, 125, 100]\<close> and
  \<open>[100, 110, 100]\<close>, the sample left over (90) is skipped, and the volatility is
  \<open>(0.25 + 0.1) / 2\<close>. A buffer of one sample gives NaN. With these two buffers on two
  active markets, \<^verbatim>\<open>update_volatility\<close> stores the first value and keeps NaN for the
  second market.
\<close>

theorem market_volatility_mean_range_ratio_witness:
  "spec_windows 3 10 triangle_wave = [[100, 125, 100], [100, 110, 100]]
   \<and> market_volatility 3 10 triangle_wave = Inr (Some ((25 / 100 + 10 / 100) / 2))
   \<and> market_volatility 3 10 [100] = Inr None
   \<and> map_sum id (\<lambda>volatility. (volatility ''ETH-USDT'', volatility ''BTC-USDT''))
         (update_volatility 3 10 [''ETH-USDT'', ''BTC-USDT'']
            [(''ETH-USDT'', triangle_wave), (''BTC-USDT'', [100])])
       = Inr (Some (Some ((25 / 100 + 10 / 100) / 2)), Some None)"
proof -
  have w: "spec_windows 3 10 triangle_wave = [[100, 125, 100], [100, 110, 100]]"
    by code_simp
  have nz: "list_all (\<lambda>w. Min (set w) \<noteq> 0) (spec_windows 3 10 triangle_wave)"
    unfolding w by simp
  have sv: "spec_volatility 3 10 triangle_wave = Some ((25 / 100 + 10 / 100) / 2)"
    unfolding spec_volatility_def w by simp
  have "market_volatility (int 3) (int 10) triangle_wave = Inr (spec_volatility 3 10 triangle_wave)"
    using market_volatility_mean_range_ratio [of 3 triangle_wave 10, THEN conjunct1] nz
    by (simp add: triangle_wave_def)
  then have a: "market_volatility 3 10 triangle_wave = Inr (Some ((25 / 100 + 10 / 100) / 2))"
    using sv by simp
  have nz1: "list_all (\<lambda>w. Min (set w) \<noteq> 0) (spec_windows 3 10 [100])"
    by (simp add: spec_windows_def)
  have "market_volatility (int 3) (int 10) [100] = Inr (spec_volatility 3 10 [100])"
    using market_volatility_mean_range_ratio [of 3 "[100]" 10, THEN conjunct1] nz1 by simp
  then have b: "market_volatility 3 10 [100] = Inr None"
    by (simp add: spec_volatility_def spec_windows_def)
  have c: "map_sum id (\<lambda>volatility. (volatility ''ETH-USDT'', volatility ''BTC-USDT''))
         (update_volatility 3 10 [''ETH-USDT'', ''BTC-USDT'']
            [(''ETH-USDT'', triangle_wave), (''BTC-USDT'', [100])])
       = Inr (Some (Some ((25 / 100 + 10 / 100) / 2)), Some None)"
    by code_simp
  from w a b c show ?thesis by simp
qed

text \<open>
  The claim as written says that a window whose minimum is 0 yields NaN rather than an
  error. With windows of two, the second window of this buffer is \<open>[0, 1]\<close>, and
  \<open>(1 - 0) / 0\<close> raises.
\<close>

theorem market_volatility_counterexample:
  "market_volatility 2 10 touching_zero = Inl DivisionByZero"
  by code_simp

text \<open>
  Outside the hypotheses of the theorem: while the buffer holds between two and
  \<open>volatility_interval - 1\<close> samples, the start \<open>i - volatility_interval + 1\<close> of the
  first slice is negative, counts from the end of the buffer and selects its last
  samples, so the window is not empty and a ratio is computed from fewer than
  \<open>volatility_interval\<close> samples. Four samples with an interval of six give the range
  ratio of the last two.
\<close>

lemma warm_up_slice_wraps:
  "py_slice [100, 100, 100, 110 :: rat] (3 - 6 + 1) (3 + 1) = [100, 110]
   \<and> market_volatility 6 10 [100, 100, 100, 110] = Inr (Some (1 / 10))"
  by code_simp

end
